theory Spec2Isabelle
  imports Complex_Main "HOL-Library.AList" "HOL-Library.Char_ord" "HOL-Library.List_Lexorder"
begin

section \<open>JavaScript primitives used by the time utilities\<close>

text \<open>
  A JavaScript \<^verbatim>\<open>number\<close> is a binary64 floating-point value. The aggregation and
  formatting functions below are written over \<^typ>\<open>real\<close> with exact arithmetic, and
  their properties are stated through the program's own expressions, so that they do not
  depend on how a sum or a product is rounded. The rounding function \<open>roundHours\<close> is
  modelled a second time with binary64 arithmetic (\<open>roundHours64\<close>), for the property
  that is about its rounding. \<^verbatim>\<open>NaN\<close> and the infinities are not values of the model;
  where the source could produce one, the model says so explicitly (\<open>js_divide\<close>,
  \<open>Number'\<close>, \<open>fl\<close>).

  A thrown \<^verbatim>\<open>Error(message)\<close> is the value \<open>Inl (Error message)\<close> of a sum type.
  \<open>Unmodelled\<close> marks a run that leaves the modelled fragment of the source's
  string-to-number conversion; the source does not throw there.
\<close>

datatype error = Error string | Unmodelled

definition Math_floor :: "real \<Rightarrow> int" where
  "Math_floor x = \<lfloor>x\<rfloor>"

text \<open>\<^verbatim>\<open>Math.round\<close> rounds to the nearest integer, ties towards plus infinity.\<close>

definition Math_round :: "real \<Rightarrow> int" where
  "Math_round x = \<lfloor>x + 1 / 2\<rfloor>"

definition digit_char :: "nat \<Rightarrow> char" where
  "digit_char d = ''0123456789'' ! d"

text \<open>Decimal digits of a natural number, no leading zeros: what a template literal
  prints for a non-negative integer (below \<open>10^21\<close>, where the source switches to
  exponent notation).\<close>

fun show_nat :: "nat \<Rightarrow> string" where
  "show_nat n = (if n < 10 then [digit_char n] else show_nat (n div 10) @ [digit_char (n mod 10)])"

declare show_nat.simps [simp del]

definition toString_int :: "int \<Rightarrow> string" where
  "toString_int k = (if k < 0 then CHR ''-'' # show_nat (nat (- k)) else show_nat (nat k))"

definition padStart :: "nat \<Rightarrow> char \<Rightarrow> string \<Rightarrow> string" where
  "padStart n c s = replicate (n - length s) c @ s"

section \<open>timeUtils\<close>

definition formatHoursToHHMM :: "real \<Rightarrow> error + string" where
  "formatHoursToHHMM hours =
     (if hours < 0 then Inl (Error ''Hours cannot be negative'')
      else
        let wholeHours = Math_floor hours;
            minutes = Math_round ((hours - real_of_int wholeHours) * 60)
        in if minutes = 60 then Inr (toString_int (wholeHours + 1) @ '':00'')
           else Inr (toString_int wholeHours @ '':'' @ padStart 2 (CHR ''0'') (toString_int minutes)))"

definition sumHours :: "real list \<Rightarrow> real" where
  "sumHours hs = foldl (\<lambda>total current. total + current) 0 hs"

definition roundHours :: "real \<Rightarrow> real" where
  "roundHours hours = real_of_int (Math_round (hours * 100)) / 100"

record TimeFormat =
  hours :: real
  hoursFormatted :: string

definition createTimeFormat :: "real \<Rightarrow> error + TimeFormat" where
  "createTimeFormat h =
     (case formatHoursToHHMM h of
        Inl e \<Rightarrow> Inl e
      | Inr s \<Rightarrow> Inr \<lparr>hours = roundHours h, hoursFormatted = s\<rparr>)"

text \<open>The clock rendering as the specification words it (section 4.1): floor, round the
  remainder to minutes, carry 60 minutes into the hour, print the hour without padding and
  the minutes padded to two digits.\<close>

definition toClockString :: "real \<Rightarrow> string" where
  "toClockString h =
     (let wholeHours = \<lfloor>h\<rfloor>;
          minutes = round ((h - real_of_int wholeHours) * 60);
          carried = (if minutes = 60 then (wholeHours + 1, 0) else (wholeHours, minutes))
      in toString_int (fst carried) @ '':'' @ padStart 2 (CHR ''0'') (toString_int (snd carried)))"

section \<open>Binary64 arithmetic and roundHours\<close>

text \<open>
  Rounding a real number to binary64, to nearest with ties to even, in the normal range.
  \<open>find_binade\<close> scales a positive number into \<open>[1, 2)\<close> and counts the exponent;
  the significand is then rounded to 52 fractional bits. \<open>None\<close> stands for a result
  outside the normal range (overflow to an infinity, or the subnormal range, which is not
  modelled).
\<close>

fun find_binade :: "nat \<Rightarrow> real \<Rightarrow> int \<Rightarrow> real \<times> int" where
  "find_binade 0 m e = (m, e)"
| "find_binade (Suc n) m e =
     (if 2 \<le> m then find_binade n (m / 2) (e + 1)
      else if m < 1 then find_binade n (m * 2) (e - 1)
      else (m, e))"

definition round_even :: "real \<Rightarrow> int" where
  "round_even y =
     (let f = \<lfloor>y\<rfloor>; d = y - real_of_int f in
      if d < 1 / 2 then f else if 1 / 2 < d then f + 1 else if even f then f else f + 1)"

definition scale2 :: "int \<Rightarrow> real" where
  "scale2 e = (if 0 \<le> e then 2 ^ nat e else 1 / 2 ^ nat (- e))"

definition fl :: "real \<Rightarrow> real option" where
  "fl x =
     (if x = 0 then Some 0
      else
        (case find_binade 2200 \<bar>x\<bar> 0 of
           (m, e) \<Rightarrow>
             (let k = round_even (m * 2 ^ 52) in
              if \<not> (1 \<le> m \<and> m < 2) \<or> e < - 1022 \<or> 1023 < e \<or> (e = 1023 \<and> k = 2 ^ 53)
              then None
              else Some (sgn x * (real_of_int k * scale2 (e - 52))))))"

text \<open>The binary64 product and quotient: the exact result, rounded.\<close>

definition fmul :: "real \<Rightarrow> real \<Rightarrow> real option" where
  "fmul a b = fl (a * b)"

definition fdiv :: "real \<Rightarrow> real \<Rightarrow> real option" where
  "fdiv a b = (if b = 0 then None else fl (a / b))"

text \<open>\<^verbatim>\<open>Math.round(hours * 100) / 100\<close> on a binary64 argument. \<^verbatim>\<open>Math.round\<close> itself is
  exact: it returns the integer nearest to its argument, ties towards plus infinity.\<close>

definition roundHours64 :: "real \<Rightarrow> real option" where
  "roundHours64 h =
     (case fmul h 100 of
        None \<Rightarrow> None
      | Some p \<Rightarrow> fdiv (real_of_int (Math_round p)) 100)"

section \<open>Insertion-ordered maps and error-aware iteration\<close>

text \<open>
  A JavaScript \<^verbatim>\<open>Map\<close> keeps its keys in insertion order. It is modelled as an
  association list: \<^const>\<open>map_of\<close> is \<^verbatim>\<open>get\<close>, and \<^const>\<open>AList.update\<close> is
  \<^verbatim>\<open>set\<close> (a present key keeps its position, a new key goes to the end). Objects
  stored in a map are mutated in place by the source; the model writes the changed object
  back under the same key. Where the source reads \<^verbatim>\<open>map.get(key)!\<close> right after making sure
  the key is present, the model's \<open>None\<close> branch repeats the value just stored and is
  never taken.

  \<^verbatim>\<open>Array.prototype.sort()\<close> without a comparator orders strings by their code units; on
  strings this is \<^const>\<open>sort\<close> with the lexicographic order on character codes.
\<close>

type_synonym ('k, 'v) js_map = "('k \<times> 'v) list"

text \<open>\<^verbatim>\<open>Array.prototype.map\<close> with a callback that may throw: the first throw ends it.\<close>

fun map_result :: "('a \<Rightarrow> error + 'b) \<Rightarrow> 'a list \<Rightarrow> error + 'b list" where
  "map_result f [] = Inr []"
| "map_result f (x # xs) =
     (case f x of
        Inl e \<Rightarrow> Inl e
      | Inr y \<Rightarrow> (case map_result f xs of Inl e \<Rightarrow> Inl e | Inr ys \<Rightarrow> Inr (y # ys)))"

text \<open>\<^verbatim>\<open>forEach\<close> over a list with a body that updates local state and may throw.\<close>

fun forEach_result :: "('a \<Rightarrow> 's \<Rightarrow> error + 's) \<Rightarrow> 'a list \<Rightarrow> 's \<Rightarrow> error + 's" where
  "forEach_result f [] s = Inr s"
| "forEach_result f (x # xs) s =
     (case f x s of Inl e \<Rightarrow> Inl e | Inr s' \<Rightarrow> forEach_result f xs s')"

text \<open>Grouping records by date: the body of the first \<^verbatim>\<open>forEach\<close> of
  \<^verbatim>\<open>aggregateActivities\<close> and of \<^verbatim>\<open>aggregatePresences\<close>.\<close>

definition groupByDate :: "('a \<Rightarrow> string) \<Rightarrow> 'a \<Rightarrow> (string, 'a list) js_map \<Rightarrow> (string, 'a list) js_map" where
  "groupByDate dateOf x byDate =
     (let byDate1 = (if map_of byDate (dateOf x) = None
                     then AList.update (dateOf x) [] byDate else byDate);
          bucket = (case map_of byDate1 (dateOf x) of Some xs \<Rightarrow> xs | None \<Rightarrow> [])
      in AList.update (dateOf x) (bucket @ [x]) byDate1)"

section \<open>Presences: types (mocoTypes) and aggregation (presencesTools)\<close>

text \<open>A presence record as the aggregation reads it. \<open>to'\<close> is \<open>None\<close> while the
  presence is still open (the field is unset or null).\<close>

record UserPresence =
  id' :: int
  date :: string
  from' :: string
  to' :: "string option"

record DailyPresenceSummary =
  date :: string
  totalHours :: real
  totalHoursFormatted :: string

record PresenceRangeSummary =
  startDate :: string
  endDate :: string
  dailySummaries :: "DailyPresenceSummary list"
  grandTotal :: TimeFormat

text \<open>\<^verbatim>\<open>String.prototype.split\<close> with a one-character separator.\<close>

fun split :: "char \<Rightarrow> string \<Rightarrow> string list" where
  "split sep [] = [[]]"
| "split sep (c # cs) =
     (if c = sep then [] # split sep cs
      else (case split sep cs of x # xs \<Rightarrow> (c # x) # xs | [] \<Rightarrow> [[c]]))"

definition isDigit :: "char \<Rightarrow> bool" where
  "isDigit c = (c \<in> set ''0123456789'')"

definition digit_value :: "char \<Rightarrow> nat" where
  "digit_value c = length (takeWhile (\<lambda>d. d \<noteq> c) ''0123456789'')"

definition decimal_value :: "string \<Rightarrow> nat" where
  "decimal_value s = foldl (\<lambda>n c. 10 * n + digit_value c) 0 s"

text \<open>\<^verbatim>\<open>Number(s)\<close> on a non-empty string of decimal digits is its decimal value. Every
  other string is outside the modelled fragment (the source yields \<^verbatim>\<open>NaN\<close> for most of
  them and a number for a few, such as the empty string or a signed or fractional
  literal): the model answers \<open>None\<close> and no property below speaks about such input.\<close>

definition Number' :: "string \<Rightarrow> real option" where
  "Number' s = (if s \<noteq> [] \<and> list_all isDigit s then Some (real (decimal_value s)) else None)"

text \<open>The destructuring \<^verbatim>\<open>[hours, minutes] = time.split(':').map(Number)\<close>: the first two
  parts, further parts are ignored. A missing part is \<^verbatim>\<open>undefined\<close> in the source and
  makes the arithmetic \<^verbatim>\<open>NaN\<close>; here it is \<open>None\<close>.\<close>

definition splitTime :: "string \<Rightarrow> (real \<times> real) option" where
  "splitTime time =
     (case map Number' (split (CHR '':'') time) of
        Some h # Some m # rest \<Rightarrow> Some (h, m)
      | _ \<Rightarrow> None)"

text \<open>The \<^verbatim>\<open>catch\<close> branch of the source (return 0) is unreachable for string
  arguments, since \<^verbatim>\<open>split\<close>, \<^verbatim>\<open>map\<close> and the arithmetic never throw.\<close>

definition calculateHoursFromTimes :: "string \<Rightarrow> string \<Rightarrow> real option" where
  "calculateHoursFromTimes fromTime toTime =
     (case (splitTime fromTime, splitTime toTime) of
        (Some (fromHours, fromMinutes), Some (toHours, toMinutes)) \<Rightarrow>
          (let fromTotalMinutes = fromHours * 60 + fromMinutes;
               toTotalMinutes = toHours * 60 + toMinutes;
               diffMinutes =
                 (if toTotalMinutes \<ge> fromTotalMinutes
                  then toTotalMinutes - fromTotalMinutes
                  else (24 * 60) - fromTotalMinutes + toTotalMinutes)
           in Some (diffMinutes / 60))
      | _ \<Rightarrow> None)"

text \<open>The filter \<^verbatim>\<open>presence.from && presence.to\<close>: both are non-empty strings.\<close>

definition completed :: "UserPresence \<Rightarrow> bool" where
  "completed presence =
     (from' presence \<noteq> [] \<and> (case to' presence of Some t \<Rightarrow> t \<noteq> [] | None \<Rightarrow> False))"

text \<open>The callback of the \<^verbatim>\<open>reduce\<close>; \<open>None\<close> is a total that has left the modelled
  fragment (in the source, \<^verbatim>\<open>NaN\<close>, which stays \<^verbatim>\<open>NaN\<close>).\<close>

definition addPresenceHours :: "real option \<Rightarrow> UserPresence \<Rightarrow> real option" where
  "addPresenceHours sumSoFar presence =
     (case (sumSoFar,
            calculateHoursFromTimes (from' presence)
              (case to' presence of Some t \<Rightarrow> t | None \<Rightarrow> [])) of
        (Some t, Some h) \<Rightarrow> Some (t + h)
      | _ \<Rightarrow> None)"

definition createDailyPresenceSummary ::
  "string \<Rightarrow> UserPresence list \<Rightarrow> error + DailyPresenceSummary" where
  "createDailyPresenceSummary day presences =
     (let completedPresences = filter completed presences in
      case foldl addPresenceHours (Some 0) completedPresences of
        None \<Rightarrow> Inl Unmodelled
      | Some hoursSum \<Rightarrow>
          (case createTimeFormat hoursSum of
             Inl e \<Rightarrow> Inl e
           | Inr tf \<Rightarrow>
               Inr \<lparr>DailyPresenceSummary.date = day,
                    totalHours = roundHours hoursSum,
                    totalHoursFormatted = TimeFormat.hoursFormatted tf\<rparr>))"

text \<open>The loop over the sorted dates only pushes one daily summary per date, so it is a
  \<open>map_result\<close>.\<close>

definition aggregatePresences ::
  "UserPresence list \<Rightarrow> string \<Rightarrow> string \<Rightarrow> error + PresenceRangeSummary" where
  "aggregatePresences presences start end =
     (let presencesByDate = fold (groupByDate UserPresence.date) presences [];
          sortedDates = sort (map fst presencesByDate) in
      case map_result
             (\<lambda>day. createDailyPresenceSummary day
                (case map_of presencesByDate day of Some xs \<Rightarrow> xs | None \<Rightarrow> []))
             sortedDates of
        Inl e \<Rightarrow> Inl e
      | Inr days \<Rightarrow>
          (let grandTotalHours = sumHours (map totalHours days) in
           case createTimeFormat grandTotalHours of
             Inl e \<Rightarrow> Inl e
           | Inr tf \<Rightarrow>
               Inr \<lparr>PresenceRangeSummary.startDate = start, PresenceRangeSummary.endDate = end,
                    PresenceRangeSummary.dailySummaries = days,
                    PresenceRangeSummary.grandTotal = tf\<rparr>))"

text \<open>Division of two numbers: \<open>None\<close> stands for the non-finite result (\<^verbatim>\<open>NaN\<close> or an
  infinity) of dividing by zero.\<close>

definition js_divide :: "real \<Rightarrow> real \<Rightarrow> real option" where
  "js_divide a b = (if b = 0 then None else Some (a / b))"

text \<open>The statistics block of \<^verbatim>\<open>formatPresencesSummary\<close>: \<open>None\<close> when the block is
  skipped, otherwise the working days and the average per day with its clock string (the
  average is \<open>None\<close> if it is not a finite number). The rest of that function only prints.\<close>

definition presenceStatistics ::
  "PresenceRangeSummary \<Rightarrow> error + (nat \<times> (real \<times> string) option) option" where
  "presenceStatistics summary =
     (if length (PresenceRangeSummary.dailySummaries summary) > 0 then
        (let workingDays = length (PresenceRangeSummary.dailySummaries summary) in
         case js_divide (TimeFormat.hours (PresenceRangeSummary.grandTotal summary))
                (real workingDays) of
           None \<Rightarrow> Inr (Some (workingDays, None))
         | Some ratio \<Rightarrow>
             (let averageHoursPerDay = roundHours ratio in
              case createTimeFormat averageHoursPerDay of
                Inl e \<Rightarrow> Inl e
              | Inr tf \<Rightarrow>
                  Inr (Some (workingDays,
                             Some (averageHoursPerDay, TimeFormat.hoursFormatted tf)))))
      else Inr None)"

section \<open>Error messages (errorHandler) and the holiday request (mocoApi)\<close>

fun startsWith :: "string \<Rightarrow> string \<Rightarrow> bool" where
  "startsWith s [] = True"
| "startsWith [] (c # cs) = False"
| "startsWith (x # xs) (c # cs) = (x = c \<and> startsWith xs cs)"

text \<open>\<^verbatim>\<open>String.prototype.includes\<close>.\<close>

fun includes' :: "string \<Rightarrow> string \<Rightarrow> bool" where
  "includes' [] sub = (sub = [])"
| "includes' (x # xs) sub = (startsWith (x # xs) sub \<or> includes' xs sub)"

text \<open>The first match of the regular expression \<^verbatim>\<open>/HTTP (\d+):/\<close>, returning its capture
  group. At a given start the match needs the literal "HTTP ", then the longest run of
  digits, which must be non-empty and followed by a colon (giving back digits cannot help,
  since the character after a shorter run is a digit).\<close>

fun matchHttpStatus :: "string \<Rightarrow> string option" where
  "matchHttpStatus [] = None"
| "matchHttpStatus (x # xs) =
     (let digits = takeWhile isDigit (drop 5 (x # xs)) in
      if startsWith (x # xs) ''HTTP '' \<and> digits \<noteq> []
         \<and> startsWith (dropWhile isDigit (drop 5 (x # xs))) '':''
      then Some digits
      else matchHttpStatus xs)"

definition createHttpErrorMessage :: "nat \<Rightarrow> string" where
  "createHttpErrorMessage statusCode =
     (if statusCode = 400 then ''Invalid parameters. Please check your inputs.''
      else if statusCode = 401 then ''API authentication failed. Please check MOCO_API_KEY.''
      else if statusCode = 403 then ''Access denied. Please check your API permissions.''
      else if statusCode = 404 then ''Resource not found. Please check the provided IDs.''
      else if statusCode = 422 then ''Invalid data. Please check date formats and value ranges.''
      else if statusCode = 429 then ''API limit reached. Please try again in a few seconds.''
      else if statusCode = 500 \<or> statusCode = 502 \<or> statusCode = 503 \<or> statusCode = 504
        then ''MoCo server error. Please try again later.''
      else ''HTTP error '' @ show_nat statusCode @ ''. Please contact support.'')"

text \<open>A caught error object: whether it is a \<^verbatim>\<open>TypeError\<close>, and its message (the empty
  message is falsy).\<close>

record CaughtError =
  isTypeError :: bool
  message :: string

definition handleMocoApiError :: "CaughtError \<Rightarrow> string" where
  "handleMocoApiError err =
     (if isTypeError err \<and> (includes' (message err) ''fetch'' \<or> includes' (message err) ''Network error'')
      then ''Network error accessing MoCo API. Please check your internet connection.''
      else
        (case (if message err \<noteq> [] \<and> includes' (message err) ''HTTP''
               then matchHttpStatus (message err) else None) of
           Some digits \<Rightarrow> createHttpErrorMessage (decimal_value digits)
         | None \<Rightarrow>
             if message err \<noteq> [] then ''MoCo API error: '' @ message err
             else ''Unknown error accessing MoCo API.''))"

text \<open>What happens inside the \<^verbatim>\<open>try\<close> of \<^verbatim>\<open>makeRequest\<close>: the response is fine and its
  body parses to a value; or the response is not ok, with a status and a status text; or
  \<^verbatim>\<open>fetch\<close> or the body parser rejects with an error.\<close>

datatype 'a fetchOutcome =
    Parsed 'a
  | NotOk nat string
  | Rejected CaughtError

definition makeRequest :: "'a fetchOutcome \<Rightarrow> error + 'a" where
  "makeRequest outcome =
     (case outcome of
        Parsed v \<Rightarrow> Inr v
      | NotOk status statusText \<Rightarrow>
          Inl (Error (handleMocoApiError
            \<lparr>isTypeError = False,
             message = ''HTTP '' @ show_nat status @ '': '' @ statusText\<rparr>))
      | Rejected err \<Rightarrow> Inl (Error (handleMocoApiError err)))"

definition getUserHolidays :: "'a list fetchOutcome \<Rightarrow> error + 'a list" where
  "getUserHolidays outcome =
     (case makeRequest outcome of
        Inr holidays \<Rightarrow> Inr holidays
      | Inl (Error msg) \<Rightarrow>
          if includes' msg ''Resource not found'' then Inr [] else Inl (Error msg)
      | Inl Unmodelled \<Rightarrow> Inl Unmodelled)"

section \<open>Activities: types (mocoTypes) and aggregation (activitiesTools)\<close>

text \<open>The \<^verbatim>\<open>{ id, name }\<close> object of an activity's project and task.\<close>

record NamedRef =
  id' :: int
  name :: string

text \<open>An activity as the aggregation reads it; the remaining fields of the interface
  (description, user, billable, locked, timestamps) are never read by it.\<close>

record Activity =
  id' :: int
  date :: string
  hours :: real
  project :: NamedRef
  task :: NamedRef

record TaskActivitySummary =
  taskId :: int
  taskName :: string
  hours :: real
  hoursFormatted :: string

record ProjectActivitySummary =
  projectId :: int
  projectName :: string
  tasks :: "TaskActivitySummary list"
  projectTotal :: TimeFormat

record DailyActivitySummary =
  date :: string
  projects :: "ProjectActivitySummary list"
  dailyTotal :: TimeFormat

record TaskTotal =
  taskId :: int
  taskName :: string
  total :: TimeFormat

record ProjectTotal =
  projectId :: int
  projectName :: string
  total :: TimeFormat
  tasks :: "TaskTotal list"

record ActivityRangeSummary =
  startDate :: string
  endDate :: string
  dailySummaries :: "DailyActivitySummary list"
  projectTotals :: "ProjectTotal list"
  grandTotal :: TimeFormat

text \<open>The per-day accumulator of \<^verbatim>\<open>createDailySummary\<close>: project id to
  (project name, task id to (task name, hours)).\<close>

type_synonym tasksMap = "(int, string \<times> real) js_map"
type_synonym projectsMap = "(int, string \<times> tasksMap) js_map"

text \<open>The body of the \<^verbatim>\<open>activities.forEach\<close> of \<^verbatim>\<open>createDailySummary\<close>.\<close>

definition addActivity :: "Activity \<Rightarrow> projectsMap \<Rightarrow> projectsMap" where
  "addActivity activity projectsMap =
     (let pid = NamedRef.id' (project activity);
          projectsMap1 =
            (if map_of projectsMap pid = None
             then AList.update pid (NamedRef.name (project activity), []) projectsMap
             else projectsMap);
          prj = (case map_of projectsMap1 pid of
                   Some p \<Rightarrow> p | None \<Rightarrow> (NamedRef.name (project activity), []));
          tid = NamedRef.id' (task activity);
          tasks1 =
            (if map_of (snd prj) tid = None
             then AList.update tid (NamedRef.name (task activity), 0) (snd prj)
             else snd prj);
          tsk = (case map_of tasks1 tid of
                   Some t \<Rightarrow> t | None \<Rightarrow> (NamedRef.name (task activity), 0));
          tasks2 = AList.update tid (fst tsk, snd tsk + Activity.hours activity) tasks1
      in AList.update pid (fst prj, tasks2) projectsMap1)"

definition taskSummary :: "int \<times> string \<times> real \<Rightarrow> error + TaskActivitySummary" where
  "taskSummary entry =
     (case entry of (tId, tName, h) \<Rightarrow>
        (case createTimeFormat h of
           Inl e \<Rightarrow> Inl e
         | Inr tf \<Rightarrow>
             Inr \<lparr>TaskActivitySummary.taskId = tId, TaskActivitySummary.taskName = tName,
                  TaskActivitySummary.hours = h,
                  TaskActivitySummary.hoursFormatted = TimeFormat.hoursFormatted tf\<rparr>))"

definition projectSummary :: "int \<times> string \<times> tasksMap \<Rightarrow> error + ProjectActivitySummary" where
  "projectSummary entry =
     (case entry of (pId, pName, taskEntries) \<Rightarrow>
        (case map_result taskSummary taskEntries of
           Inl e \<Rightarrow> Inl e
         | Inr ts \<Rightarrow>
             (case createTimeFormat (sumHours (map TaskActivitySummary.hours ts)) of
                Inl e \<Rightarrow> Inl e
              | Inr tf \<Rightarrow>
                  Inr \<lparr>ProjectActivitySummary.projectId = pId,
                       ProjectActivitySummary.projectName = pName,
                       ProjectActivitySummary.tasks = ts,
                       projectTotal = tf\<rparr>)))"

definition createDailySummary :: "string \<Rightarrow> Activity list \<Rightarrow> error + DailyActivitySummary" where
  "createDailySummary day activities =
     (let projectsMap = fold addActivity activities [] in
      case map_result projectSummary projectsMap of
        Inl e \<Rightarrow> Inl e
      | Inr ps \<Rightarrow>
          (case createTimeFormat
                  (sumHours (map (\<lambda>p. TimeFormat.hours (projectTotal p)) ps)) of
             Inl e \<Rightarrow> Inl e
           | Inr tf \<Rightarrow>
               Inr \<lparr>DailyActivitySummary.date = day, projects = ps, dailyTotal = tf\<rparr>))"

text \<open>The cross-day accumulator: project id to (project name, total hours, task id to
  (task name, total hours)).\<close>

type_synonym taskTotalsMap = "(int, string \<times> real) js_map"
type_synonym projectTotalsMap = "(int, string \<times> real \<times> taskTotalsMap) js_map"

definition addTaskTotal :: "TaskActivitySummary \<Rightarrow> taskTotalsMap \<Rightarrow> taskTotalsMap" where
  "addTaskTotal t taskTotals =
     (let tid = TaskActivitySummary.taskId t;
          taskTotals1 =
            (if map_of taskTotals tid = None
             then AList.update tid (TaskActivitySummary.taskName t, 0) taskTotals
             else taskTotals);
          entry = (case map_of taskTotals1 tid of
                     Some x \<Rightarrow> x | None \<Rightarrow> (TaskActivitySummary.taskName t, 0))
      in AList.update tid (fst entry, snd entry + TaskActivitySummary.hours t) taskTotals1)"

definition addProjectTotal :: "ProjectActivitySummary \<Rightarrow> projectTotalsMap \<Rightarrow> projectTotalsMap" where
  "addProjectTotal p projectTotalsMap =
     (let pid = ProjectActivitySummary.projectId p;
          map1 =
            (if map_of projectTotalsMap pid = None
             then AList.update pid (ProjectActivitySummary.projectName p, 0, []) projectTotalsMap
             else projectTotalsMap);
          entry = (case map_of map1 pid of
                     Some x \<Rightarrow> x | None \<Rightarrow> (ProjectActivitySummary.projectName p, 0, []));
          totalHrs = fst (snd entry) + TimeFormat.hours (projectTotal p);
          taskTotals = fold addTaskTotal (ProjectActivitySummary.tasks p) (snd (snd entry))
      in AList.update pid (fst entry, totalHrs, taskTotals) map1)"

text \<open>The body of the \<^verbatim>\<open>sortedDates.forEach\<close>; its state is the pair of
  \<^verbatim>\<open>dailySummaries\<close> and \<^verbatim>\<open>projectTotalsMap\<close>.\<close>

definition addDay ::
  "(string, Activity list) js_map \<Rightarrow> string \<Rightarrow>
   DailyActivitySummary list \<times> projectTotalsMap \<Rightarrow>
   error + DailyActivitySummary list \<times> projectTotalsMap" where
  "addDay activitiesByDate day state =
     (let dayActivities = (case map_of activitiesByDate day of Some xs \<Rightarrow> xs | None \<Rightarrow> []) in
      case createDailySummary day dayActivities of
        Inl e \<Rightarrow> Inl e
      | Inr dailySummary \<Rightarrow>
          Inr (fst state @ [dailySummary],
               fold addProjectTotal (projects dailySummary) (snd state)))"

definition taskTotal :: "int \<times> string \<times> real \<Rightarrow> error + TaskTotal" where
  "taskTotal entry =
     (case entry of (tId, tName, totalHrs) \<Rightarrow>
        (case createTimeFormat totalHrs of
           Inl e \<Rightarrow> Inl e
         | Inr tf \<Rightarrow> Inr \<lparr>TaskTotal.taskId = tId, TaskTotal.taskName = tName,
                        TaskTotal.total = tf\<rparr>))"

definition projectTotalEntry :: "int \<times> string \<times> real \<times> taskTotalsMap \<Rightarrow> error + ProjectTotal" where
  "projectTotalEntry entry =
     (case entry of (pId, pName, totalHrs, taskEntries) \<Rightarrow>
        (case createTimeFormat totalHrs of
           Inl e \<Rightarrow> Inl e
         | Inr tf \<Rightarrow>
             (case map_result taskTotal taskEntries of
                Inl e \<Rightarrow> Inl e
              | Inr ts \<Rightarrow>
                  Inr \<lparr>ProjectTotal.projectId = pId, ProjectTotal.projectName = pName,
                       ProjectTotal.total = tf, ProjectTotal.tasks = ts\<rparr>)))"

definition aggregateActivities ::
  "Activity list \<Rightarrow> string \<Rightarrow> string \<Rightarrow> error + ActivityRangeSummary" where
  "aggregateActivities activities start end =
     (let activitiesByDate = fold (groupByDate Activity.date) activities [];
          sortedDates = sort (map fst activitiesByDate) in
      case forEach_result (addDay activitiesByDate) sortedDates ([], []) of
        Inl e \<Rightarrow> Inl e
      | Inr (days, projectTotalsMap) \<Rightarrow>
          (case map_result projectTotalEntry projectTotalsMap of
             Inl e \<Rightarrow> Inl e
           | Inr totals \<Rightarrow>
               (let grandTotalHours =
                      sumHours (map (\<lambda>day. TimeFormat.hours (dailyTotal day)) days) in
                case createTimeFormat grandTotalHours of
                  Inl e \<Rightarrow> Inl e
                | Inr tf \<Rightarrow>
                    Inr \<lparr>startDate = start, endDate = end,
                         dailySummaries = days, projectTotals = totals,
                         grandTotal = tf\<rparr>)))"

section \<open>Notions used to state the aggregation properties\<close>

definition leafHours :: "projectsMap \<Rightarrow> int \<Rightarrow> int \<Rightarrow> real option" where
  "leafHours pm p t =
     (case map_of pm p of None \<Rightarrow> None | Some prj \<Rightarrow> map_option snd (map_of (snd prj) t))"

definition recordsFor :: "Activity list \<Rightarrow> string \<Rightarrow> int \<Rightarrow> int \<Rightarrow> Activity list" where
  "recordsFor activities day p t =
     filter (\<lambda>a. Activity.date a = day \<and> NamedRef.id' (project a) = p \<and> NamedRef.id' (task a) = t)
       activities"

definition nonneg_projectsMap :: "projectsMap \<Rightarrow> bool" where
  "nonneg_projectsMap pm = (\<forall>e\<in>set pm. \<forall>te\<in>set (snd (snd e)). 0 \<le> snd (snd te))"

definition distinct_projectsMap :: "projectsMap \<Rightarrow> bool" where
  "distinct_projectsMap pm =
     (distinct (map fst pm) \<and> (\<forall>e\<in>set pm. distinct (map fst (snd (snd e)))))"

definition nonneg_totals :: "projectTotalsMap \<Rightarrow> bool" where
  "nonneg_totals ptm =
     (\<forall>e\<in>set ptm. 0 \<le> fst (snd (snd e)) \<and> (\<forall>te\<in>set (snd (snd (snd e))). 0 \<le> snd (snd te)))"

definition nonneg_day :: "DailyActivitySummary \<Rightarrow> bool" where
  "nonneg_day d =
     (0 \<le> TimeFormat.hours (dailyTotal d) \<and>
      (\<forall>p\<in>set (projects d). 0 \<le> TimeFormat.hours (projectTotal p) \<and>
         (\<forall>t\<in>set (ProjectActivitySummary.tasks p). 0 \<le> TaskActivitySummary.hours t)))"

definition sortedDates :: "Activity list \<Rightarrow> string list" where
  "sortedDates acts = sort (map fst (fold (groupByDate Activity.date) acts []))"

definition scenarioA :: "Activity list" where
  "scenarioA =
     [\<lparr>Activity.id' = 1, Activity.date = ''2024-01-15'', Activity.hours = 4.5,
       project = \<lparr>NamedRef.id' = 123, name = ''P123''\<rparr>,
       task = \<lparr>NamedRef.id' = 456, name = ''T456''\<rparr>\<rparr>,
      \<lparr>Activity.id' = 2, Activity.date = ''2024-01-15'', Activity.hours = 3.25,
       project = \<lparr>NamedRef.id' = 123, name = ''P123''\<rparr>,
       task = \<lparr>NamedRef.id' = 789, name = ''T789''\<rparr>\<rparr>]"

definition scenarioA_summary :: ActivityRangeSummary where
  "scenarioA_summary =
     \<lparr>startDate = ''2024-01-15'', endDate = ''2024-01-15'',
      dailySummaries =
        [\<lparr>DailyActivitySummary.date = ''2024-01-15'',
          projects =
            [\<lparr>ProjectActivitySummary.projectId = 123,
              ProjectActivitySummary.projectName = ''P123'',
              ProjectActivitySummary.tasks =
                [\<lparr>TaskActivitySummary.taskId = 456, TaskActivitySummary.taskName = ''T456'',
                  TaskActivitySummary.hours = 4.5,
                  TaskActivitySummary.hoursFormatted = ''4:30''\<rparr>,
                 \<lparr>TaskActivitySummary.taskId = 789, TaskActivitySummary.taskName = ''T789'',
                  TaskActivitySummary.hours = 3.25,
                  TaskActivitySummary.hoursFormatted = ''3:15''\<rparr>],
              projectTotal = \<lparr>TimeFormat.hours = 7.75, TimeFormat.hoursFormatted = ''7:45''\<rparr>\<rparr>],
          dailyTotal = \<lparr>TimeFormat.hours = 7.75, TimeFormat.hoursFormatted = ''7:45''\<rparr>\<rparr>],
      projectTotals =
        [\<lparr>ProjectTotal.projectId = 123, ProjectTotal.projectName = ''P123'',
          ProjectTotal.total = \<lparr>TimeFormat.hours = 7.75, TimeFormat.hoursFormatted = ''7:45''\<rparr>,
          ProjectTotal.tasks =
            [\<lparr>TaskTotal.taskId = 456, TaskTotal.taskName = ''T456'',
              TaskTotal.total = \<lparr>TimeFormat.hours = 4.5, TimeFormat.hoursFormatted = ''4:30''\<rparr>\<rparr>,
             \<lparr>TaskTotal.taskId = 789, TaskTotal.taskName = ''T789'',
              TaskTotal.total = \<lparr>TimeFormat.hours = 3.25, TimeFormat.hoursFormatted = ''3:15''\<rparr>\<rparr>]\<rparr>],
      grandTotal = \<lparr>TimeFormat.hours = 7.75, TimeFormat.hoursFormatted = ''7:45''\<rparr>\<rparr>"

definition unroundedActivity :: "Activity list" where
  "unroundedActivity =
     [\<lparr>Activity.id' = 1, Activity.date = ''2024-01-15'', Activity.hours = 1.234,
       project = \<lparr>NamedRef.id' = 123, name = ''P123''\<rparr>,
       task = \<lparr>NamedRef.id' = 456, name = ''T456''\<rparr>\<rparr>]"

definition unroundedActivity_project :: ProjectActivitySummary where
  "unroundedActivity_project =
     \<lparr>ProjectActivitySummary.projectId = 123,
      ProjectActivitySummary.projectName = ''P123'',
      ProjectActivitySummary.tasks =
        [\<lparr>TaskActivitySummary.taskId = 456, TaskActivitySummary.taskName = ''T456'',
          TaskActivitySummary.hours = 1.234,
          TaskActivitySummary.hoursFormatted = ''1:14''\<rparr>],
      projectTotal = \<lparr>TimeFormat.hours = 1.23, TimeFormat.hoursFormatted = ''1:14''\<rparr>\<rparr>"

definition unroundedActivity_summary :: ActivityRangeSummary where
  "unroundedActivity_summary =
     \<lparr>startDate = ''2024-01-15'', endDate = ''2024-01-15'',
      dailySummaries =
        [\<lparr>DailyActivitySummary.date = ''2024-01-15'', projects = [unroundedActivity_project],
          dailyTotal = \<lparr>TimeFormat.hours = 1.23, TimeFormat.hoursFormatted = ''1:14''\<rparr>\<rparr>],
      projectTotals =
        [\<lparr>ProjectTotal.projectId = 123, ProjectTotal.projectName = ''P123'',
          ProjectTotal.total = \<lparr>TimeFormat.hours = 1.23, TimeFormat.hoursFormatted = ''1:14''\<rparr>,
          ProjectTotal.tasks =
            [\<lparr>TaskTotal.taskId = 456, TaskTotal.taskName = ''T456'',
              TaskTotal.total = \<lparr>TimeFormat.hours = 1.23, TimeFormat.hoursFormatted = ''1:14''\<rparr>\<rparr>]\<rparr>],
      grandTotal = \<lparr>TimeFormat.hours = 1.23, TimeFormat.hoursFormatted = ''1:14''\<rparr>\<rparr>"

text \<open>An "HH:MM" clock time: hours and minutes, each zero-padded to two digits.\<close>

definition clockTime :: "nat \<Rightarrow> nat \<Rightarrow> string" where
  "clockTime h m = padStart 2 (CHR ''0'') (show_nat h) @ '':'' @ padStart 2 (CHR ''0'') (show_nat m)"

definition presenceHours :: "UserPresence \<Rightarrow> real" where
  "presenceHours presence =
     (case calculateHoursFromTimes (from' presence)
             (case to' presence of Some t \<Rightarrow> t | None \<Rightarrow> []) of
        Some h \<Rightarrow> h
      | None \<Rightarrow> 0)"

definition validPresence :: "UserPresence \<Rightarrow> bool" where
  "validPresence presence =
     (\<exists>h1 m1 h2 m2. h1 < 24 \<and> m1 < 60 \<and> h2 < 24 \<and> m2 < 60
        \<and> from' presence = clockTime h1 m1 \<and> to' presence = Some (clockTime h2 m2))"

definition qualifyingDates :: "UserPresence list \<Rightarrow> string list" where
  "qualifyingDates presences = remdups (map UserPresence.date (filter completed presences))"

definition scenarioB :: "UserPresence list" where
  "scenarioB =
     [\<lparr>UserPresence.id' = 1, UserPresence.date = ''2024-01-15'', from' = ''09:00'',
       to' = Some ''17:30''\<rparr>]"

definition scenarioB_summary :: PresenceRangeSummary where
  "scenarioB_summary =
     \<lparr>PresenceRangeSummary.startDate = ''2024-01-15'',
      PresenceRangeSummary.endDate = ''2024-01-15'',
      PresenceRangeSummary.dailySummaries =
        [\<lparr>DailyPresenceSummary.date = ''2024-01-15'', totalHours = 8.5,
          totalHoursFormatted = ''8:30''\<rparr>],
      PresenceRangeSummary.grandTotal =
        \<lparr>TimeFormat.hours = 8.5, TimeFormat.hoursFormatted = ''8:30''\<rparr>\<rparr>"

definition openRecord :: UserPresence where
  "openRecord =
     \<lparr>UserPresence.id' = 2, UserPresence.date = ''2024-01-15'', from' = ''09:00'',
      to' = None\<rparr>"

definition openPresence :: "UserPresence list" where
  "openPresence = [openRecord]"

definition openPresence_summary :: PresenceRangeSummary where
  "openPresence_summary =
     \<lparr>PresenceRangeSummary.startDate = ''2024-01-15'',
      PresenceRangeSummary.endDate = ''2024-01-15'',
      PresenceRangeSummary.dailySummaries =
        [\<lparr>DailyPresenceSummary.date = ''2024-01-15'', totalHours = 0,
          totalHoursFormatted = ''0:00''\<rparr>],
      PresenceRangeSummary.grandTotal =
        \<lparr>TimeFormat.hours = 0, TimeFormat.hoursFormatted = ''0:00''\<rparr>\<rparr>"

section \<open>Properties of the time utilities\<close>

lemma Math_round_int [simp]: "Math_round (real_of_int k) = k"
  by (simp add: Math_round_def)

lemma roundHours_cents: "roundHours (real_of_int k / 100) = real_of_int k / 100"
  by (simp add: roundHours_def)

lemma roundHours_nonneg: "0 \<le> h \<Longrightarrow> 0 \<le> roundHours h"
  by (simp add: roundHours_def Math_round_def)

lemma sumHours_sum_list: "sumHours hs = sum_list hs"
proof -
  have "foldl (\<lambda>total current. total + current) a hs = a + sum_list hs" for a :: real
    by (induction hs arbitrary: a) simp_all
  then show ?thesis by (simp add: sumHours_def)
qed

lemmas format_eval = formatHoursToHHMM_def Math_floor_def Math_round_def toString_int_def
  padStart_def show_nat.simps digit_char_def

lemma frac_bounds: "0 \<le> h - real_of_int \<lfloor>h\<rfloor>" "h - real_of_int \<lfloor>h\<rfloor> < 1"
  by linarith+

lemma minutes_range:
  shows "0 \<le> Math_round ((h - real_of_int (Math_floor h)) * 60)"
    and "Math_round ((h - real_of_int (Math_floor h)) * 60) \<le> 60"
proof -
  let ?f = "h - real_of_int \<lfloor>h\<rfloor>"
  have "0 \<le> ?f * 60 + 1 / 2" using frac_bounds(1) [of h] by simp
  then show "0 \<le> Math_round ((h - real_of_int (Math_floor h)) * 60)"
    by (simp add: Math_round_def Math_floor_def)
  have "?f * 60 + 1 / 2 < 61" using frac_bounds(2) [of h] by simp
  then have "\<lfloor>?f * 60 + 1 / 2\<rfloor> < 61" by (simp add: floor_less_iff)
  then show "Math_round ((h - real_of_int (Math_floor h)) * 60) \<le> 60"
    by (simp add: Math_round_def Math_floor_def)
qed

lemma pad_zero: "padStart 2 (CHR ''0'') (toString_int 0) = ''00''"
  by (simp add: padStart_def toString_int_def show_nat.simps digit_char_def)

lemma format_is_toClockString: "0 \<le> h \<Longrightarrow> formatHoursToHHMM h = Inr (toClockString h)"
  by (simp add: formatHoursToHHMM_def toClockString_def Let_def Math_floor_def Math_round_def
      round_def pad_zero)

lemma format_negative: "h < 0 \<Longrightarrow> formatHoursToHHMM h = Inl (Error ''Hours cannot be negative'')"
  by (simp add: formatHoursToHHMM_def)

lemma digit_char_0: "digit_char 0 = CHR ''0''"
  by (simp add: digit_char_def)

lemma show_nat_small: "n < 10 \<Longrightarrow> show_nat n = [digit_char n]"
  by (simp add: show_nat.simps)

lemma pad2_show_nat:
  assumes "n < 100"
  shows "padStart 2 (CHR ''0'') (show_nat n) = [digit_char (n div 10), digit_char (n mod 10)]"
proof (cases "n < 10")
  case True
  then show ?thesis by (simp add: show_nat_small padStart_def digit_char_0)
next
  case False
  with assms have "n div 10 < 10" by simp
  then have "show_nat n = [digit_char (n div 10), digit_char (n mod 10)]"
    using False by (subst show_nat.simps) (simp add: show_nat_small)
  then show ?thesis by (simp add: padStart_def)
qed

lemma format_two_digit_minutes:
  assumes "0 \<le> h"
  shows "\<exists>H M. M < 60 \<and> (H = \<lfloor>h\<rfloor> \<or> H = \<lfloor>h\<rfloor> + 1) \<and>
           formatHoursToHHMM h =
             Inr (toString_int H @ '':'' @ [digit_char (M div 10), digit_char (M mod 10)])"
proof -
  define w where "w = Math_floor h"
  define m where "m = Math_round ((h - real_of_int w) * 60)"
  have w: "w = \<lfloor>h\<rfloor>" by (simp add: w_def Math_floor_def)
  have m0: "0 \<le> m" and m60: "m \<le> 60"
    using minutes_range [of h] by (simp_all add: m_def w_def)
  show ?thesis
  proof (cases "m = 60")
    case True
    have "formatHoursToHHMM h = Inr (toString_int (w + 1) @ '':00'')"
      unfolding formatHoursToHHMM_def Let_def w_def [symmetric] m_def [symmetric]
      using assms True by simp
    then have "formatHoursToHHMM h =
        Inr (toString_int (w + 1) @ '':'' @ [digit_char (0 div 10), digit_char (0 mod 10)])"
      by (simp add: digit_char_0)
    moreover have "(0::nat) < 60" by simp
    ultimately show ?thesis using w by blast
  next
    case False
    with m60 m0 have lt: "nat m < 60" by simp
    have "formatHoursToHHMM h =
        Inr (toString_int w @ '':'' @ padStart 2 (CHR ''0'') (toString_int m))"
      unfolding formatHoursToHHMM_def Let_def w_def [symmetric] m_def [symmetric]
      using assms False by simp
    moreover have "padStart 2 (CHR ''0'') (show_nat (nat m)) =
        [digit_char (nat m div 10), digit_char (nat m mod 10)]"
      using lt by (intro pad2_show_nat) simp
    ultimately have "formatHoursToHHMM h =
        Inr (toString_int w @ '':'' @ [digit_char (nat m div 10), digit_char (nat m mod 10)])"
      using m0 by (simp add: toString_int_def)
    with lt w show ?thesis by blast
  qed
qed

lemma createTimeFormat_Inr_iff:
  "createTimeFormat h = Inr tf \<longleftrightarrow>
     0 \<le> h \<and> tf = \<lparr>TimeFormat.hours = roundHours h, TimeFormat.hoursFormatted = toClockString h\<rparr>"
  by (cases "0 \<le> h") (auto simp: createTimeFormat_def format_is_toClockString format_negative)

lemma createTimeFormat_nonneg:
  "0 \<le> h \<Longrightarrow> createTimeFormat h = Inr \<lparr>TimeFormat.hours = roundHours h, TimeFormat.hoursFormatted = toClockString h\<rparr>"
  by (simp add: createTimeFormat_Inr_iff)

subsection \<open>Claim C3\<close>

text \<open>Properties of the binary64 rounding \<open>fl\<close>: its result is within a relative error of
  \<open>2\<^sup>-\<^sup>5\<^sup>3\<close> of its argument.\<close>

lemma find_binade_numeral:
  "find_binade (numeral n) m e =
     (if 2 \<le> m then find_binade (pred_numeral n) (m / 2) (e + 1)
      else if m < 1 then find_binade (pred_numeral n) (m * 2) (e - 1)
      else (m, e))"
  by (simp add: numeral_eq_Suc)

lemmas fl_eval = fl_def find_binade_numeral round_even_def scale2_def fmul_def fdiv_def
  roundHours64_def Math_round_def Let_def

lemma scale2_powr: "scale2 e = 2 powr real_of_int e"
  by (simp add: scale2_def powr_int)

lemma scale2_pos: "0 < scale2 e"
  by (simp add: scale2_powr)

lemma scale2_add: "scale2 (a + b) = scale2 a * scale2 b"
  by (simp add: scale2_powr powr_add)

lemma scale2_52: "scale2 52 = 2 ^ 52"
  by (simp add: scale2_def)

lemma scale2_1: "scale2 1 = 2" "scale2 (- 1) = 1 / 2" "scale2 0 = 1"
  by (simp_all add: scale2_def)

lemma find_binade_value:
  "find_binade n m e = (m', e') \<Longrightarrow> m' * scale2 e' = m * scale2 e"
proof (induction n arbitrary: m e)
  case 0
  then show ?case by simp
next
  case (Suc n)
  show ?case
  proof (cases "2 \<le> m")
    case True
    with Suc.prems have "find_binade n (m / 2) (e + 1) = (m', e')" by simp
    then have "m' * scale2 e' = (m / 2) * scale2 (e + 1)" by (rule Suc.IH)
    then show ?thesis by (simp add: scale2_add scale2_1)
  next
    case False
    show ?thesis
    proof (cases "m < 1")
      case True
      with False Suc.prems have "find_binade n (m * 2) (e - 1) = (m', e')" by simp
      then have "m' * scale2 e' = (m * 2) * scale2 (e - 1)" by (rule Suc.IH)
      moreover have "scale2 (e - 1) = scale2 e * scale2 (- 1)"
        using scale2_add [of e "- 1"] by simp
      ultimately show ?thesis by (simp add: scale2_1)
    next
      case False
      with \<open>\<not> 2 \<le> m\<close> Suc.prems show ?thesis by simp
    qed
  qed
qed

lemma round_even_error: "\<bar>real_of_int (round_even y) - y\<bar> \<le> 1 / 2"
proof -
  define f where "f = \<lfloor>y\<rfloor>"
  have b: "real_of_int f \<le> y" "y < real_of_int f + 1"
    unfolding f_def by (rule of_int_floor_le, rule floor_correct [THEN conjunct2, simplified])
  have "round_even y =
      (if y - real_of_int f < 1 / 2 then f
       else if 1 / 2 < y - real_of_int f then f + 1 else if even f then f else f + 1)"
    unfolding round_even_def Let_def f_def by (rule refl)
  then show ?thesis using b by (simp split: if_splits)
qed

lemma fl_error:
  assumes "fl x = Some y"
  shows "\<bar>y - x\<bar> \<le> \<bar>x\<bar> / 2 ^ 53"
proof (cases "x = 0")
  case True
  with assms show ?thesis by (simp add: fl_def)
next
  case False
  obtain m e where b: "find_binade 2200 \<bar>x\<bar> 0 = (m, e)" by (cases "find_binade 2200 \<bar>x\<bar> 0")
  define k where "k = round_even (m * 2 ^ 52)"
  from assms False b have m: "1 \<le> m" "m < 2"
    and y: "y = sgn x * (real_of_int k * scale2 (e - 52))"
    by (auto simp: fl_def Let_def k_def split: if_splits)
  from find_binade_value [OF b] have ax: "\<bar>x\<bar> = m * scale2 e" by (simp add: scale2_1)
  have se: "scale2 e = 2 ^ 52 * scale2 (e - 52)"
    using scale2_add [of 52 "e - 52"] by (simp add: scale2_52)
  have "\<bar>y - x\<bar> = \<bar>real_of_int k * scale2 (e - 52) - \<bar>x\<bar>\<bar>"
    using False by (cases "0 < x") (simp_all add: y sgn_if abs_if)
  also have "\<dots> = \<bar>real_of_int k - m * 2 ^ 52\<bar> * scale2 (e - 52)"
  proof -
    have "real_of_int k * scale2 (e - 52) - \<bar>x\<bar> = (real_of_int k - m * 2 ^ 52) * scale2 (e - 52)"
      by (simp add: ax se algebra_simps)
    then show ?thesis using scale2_pos [of "e - 52"] by (simp add: abs_mult)
  qed
  also have "\<dots> \<le> (1 / 2) * scale2 (e - 52)"
    using round_even_error [of "m * 2 ^ 52"] scale2_pos [of "e - 52"]
    by (intro mult_right_mono) (simp_all add: k_def)
  also have "\<dots> = scale2 e / 2 ^ 53"
    by (simp add: se)
  also have "\<dots> \<le> \<bar>x\<bar> / 2 ^ 53"
  proof -
    have "scale2 e \<le> m * scale2 e" using m(1) scale2_pos [of e] by simp
    then show ?thesis by (simp add: ax divide_right_mono)
  qed
  finally show ?thesis .
qed

lemma Math_round_bounds:
  "real_of_int (Math_round p) - 1 / 2 \<le> p" "p < real_of_int (Math_round p) + 1 / 2"
proof -
  define k where "k = Math_round p"
  have "real_of_int k \<le> p + 1 / 2" "p + 1 / 2 < real_of_int k + 1"
    unfolding k_def Math_round_def
    by (rule of_int_floor_le, rule floor_correct [THEN conjunct2, simplified])
  then have "real_of_int k - 1 / 2 \<le> p" "p < real_of_int k + 1 / 2" by linarith+
  then show "real_of_int (Math_round p) - 1 / 2 \<le> p" "p < real_of_int (Math_round p) + 1 / 2"
    unfolding k_def .
qed

text \<open>
  C3 as stated fails in binary64 arithmetic. The number written 0.015 is the binary64
  value \<open>1080863910568919 / 2\<^sup>5\<^sup>6\<close>, which lies below 0.015, so rounded half-up to two
  decimals it is 0.01; its product with 100 is rounded to exactly 1.5, and \<open>roundHours\<close>
  returns the binary64 value of 0.02. The number written 1.005 is the binary64 value
  \<open>1131529406376837 / 2\<^sup>5\<^sup>0\<close>; its product with 100 is rounded below 100.5, and
  \<open>roundHours\<close> returns 1, not 1.01.
\<close>

theorem roundHours_binary64_misrounds:
  "fl 0.015 = Some (1080863910568919 / 2 ^ 56)
   \<and> (1 / 100 :: real) - 1 / 200 \<le> 1080863910568919 / 2 ^ 56
   \<and> (1080863910568919 / 2 ^ 56 :: real) < 1 / 100 + 1 / 200
   \<and> fmul (1080863910568919 / 2 ^ 56) 100 = Some (3 / 2)
   \<and> roundHours64 (1080863910568919 / 2 ^ 56) = fl 0.02
   \<and> fl 0.02 = Some (5764607523034235 / 2 ^ 58)
   \<and> fl 0.01 = Some (5764607523034235 / 2 ^ 59)
   \<and> fl 1.005 = Some (1131529406376837 / 2 ^ 50)
   \<and> roundHours64 (1131529406376837 / 2 ^ 50) = Some 1
   \<and> fl 1.01 = Some (4548635623644201 / 2 ^ 52)"
  by (simp add: fl_eval)

text \<open>
  C3 (amended). For a binary64 value \<open>h\<close> whose product with 100 stays in the normal
  range: \<open>roundHours\<close> returns the binary64 value nearest to \<open>k / 100\<close>, where \<open>k\<close> is the
  binary64 product \<open>p\<close> of \<open>h\<close> and 100 rounded half-up to an integer
  (\<open>k - 1/2 \<le> p < k + 1/2\<close>), and \<open>p\<close> differs from the exact product by a relative
  error of at most \<open>2\<^sup>-\<^sup>5\<^sup>3\<close>. So whenever the exact product \<open>h * 100\<close> is farther than
  that error from the two half-way points around it, \<open>roundHours\<close> returns the binary64
  value nearest to \<open>h\<close> rounded half-up to two decimals. In particular
  \<open>roundHours(1.234567)\<close> is 1.23 and \<open>roundHours(1.235)\<close> is 1.24 (as binary64 values).
\<close>

theorem roundHours_binary64_rounding:
  "(fmul h 100 = Some p \<longrightarrow>
      roundHours64 h = fl (real_of_int (Math_round p) / 100)
      \<and> real_of_int (Math_round p) - 1 / 2 \<le> p \<and> p < real_of_int (Math_round p) + 1 / 2
      \<and> \<bar>p - h * 100\<bar> \<le> \<bar>h * 100\<bar> / 2 ^ 53
      \<and> (roundHours64 h = Some r \<longrightarrow>
           \<bar>r - real_of_int (Math_round p) / 100\<bar> \<le> \<bar>real_of_int (Math_round p) / 100\<bar> / 2 ^ 53)
      \<and> (real_of_int (Math_round (h * 100)) - 1 / 2 + \<bar>h * 100\<bar> / 2 ^ 53 \<le> h * 100
           \<and> h * 100 + \<bar>h * 100\<bar> / 2 ^ 53 < real_of_int (Math_round (h * 100)) + 1 / 2 \<longrightarrow>
           roundHours64 h = fl (roundHours h)))
   \<and> fl 1.234567 = Some (5559995481163911 / 2 ^ 52)
   \<and> roundHours64 (5559995481163911 / 2 ^ 52) = fl 1.23
   \<and> fl 1.23 = Some (2769713770832855 / 2 ^ 51)
   \<and> fl 1.235 = Some (5561945539802563 / 2 ^ 52)
   \<and> roundHours64 (5561945539802563 / 2 ^ 52) = fl 1.24
   \<and> fl 1.24 = Some (5584463537939415 / 2 ^ 52)"
proof -
  have general: "roundHours64 h = fl (real_of_int (Math_round p) / 100)
      \<and> real_of_int (Math_round p) - 1 / 2 \<le> p \<and> p < real_of_int (Math_round p) + 1 / 2
      \<and> \<bar>p - h * 100\<bar> \<le> \<bar>h * 100\<bar> / 2 ^ 53
      \<and> (roundHours64 h = Some r \<longrightarrow>
           \<bar>r - real_of_int (Math_round p) / 100\<bar> \<le> \<bar>real_of_int (Math_round p) / 100\<bar> / 2 ^ 53)
      \<and> (real_of_int (Math_round (h * 100)) - 1 / 2 + \<bar>h * 100\<bar> / 2 ^ 53 \<le> h * 100
           \<and> h * 100 + \<bar>h * 100\<bar> / 2 ^ 53 < real_of_int (Math_round (h * 100)) + 1 / 2 \<longrightarrow>
           roundHours64 h = fl (roundHours h))"
    if p: "fmul h 100 = Some p"
  proof -
    have r: "roundHours64 h = fl (real_of_int (Math_round p) / 100)"
      by (simp add: roundHours64_def p fdiv_def)
    have e: "\<bar>p - h * 100\<bar> \<le> \<bar>h * 100\<bar> / 2 ^ 53"
      using p unfolding fmul_def by (rule fl_error)
    have q: "\<bar>r - real_of_int (Math_round p) / 100\<bar> \<le> \<bar>real_of_int (Math_round p) / 100\<bar> / 2 ^ 53"
      if "roundHours64 h = Some r"
      using that unfolding r by (rule fl_error)
    have c: "roundHours64 h = fl (roundHours h)"
      if far: "real_of_int (Math_round (h * 100)) - 1 / 2 + \<bar>h * 100\<bar> / 2 ^ 53 \<le> h * 100
           \<and> h * 100 + \<bar>h * 100\<bar> / 2 ^ 53 < real_of_int (Math_round (h * 100)) + 1 / 2"
    proof -
      define x where "x = h * 100"
      define d where "d = \<bar>h * 100\<bar> / 2 ^ 53"
      define k where "k = Math_round (h * 100)"
      from e have "\<bar>p - x\<bar> \<le> d" unfolding x_def d_def .
      moreover from far have "real_of_int k - 1 / 2 + d \<le> x" "x + d < real_of_int k + 1 / 2"
        unfolding x_def d_def k_def by blast+
      ultimately have "real_of_int k \<le> p + 1 / 2" "p + 1 / 2 < real_of_int k + 1"
        by linarith+
      then have "\<lfloor>p + 1 / 2\<rfloor> = k" by (rule floor_unique)
      then have "Math_round p = Math_round (h * 100)"
        unfolding k_def Math_round_def .
      then show ?thesis unfolding r roundHours_def by simp
    qed
    from r e q c Math_round_bounds [of p] show ?thesis by blast
  qed
  have listed:
    "fl 1.234567 = Some (5559995481163911 / 2 ^ 52)"
    "roundHours64 (5559995481163911 / 2 ^ 52) = fl 1.23"
    "fl 1.23 = Some (2769713770832855 / 2 ^ 51)"
    "fl 1.235 = Some (5561945539802563 / 2 ^ 52)"
    "roundHours64 (5561945539802563 / 2 ^ 52) = fl 1.24"
    "fl 1.24 = Some (5584463537939415 / 2 ^ 52)"
    by (simp_all add: fl_eval)
  from general listed show ?thesis by blast
qed

theorem roundHours_binary64_rounding_witness:
  "fmul (5559995481163911 / 2 ^ 52) 100 = Some (8687492939318611 / 2 ^ 46)
   \<and> Math_round (5559995481163911 / 2 ^ 52 * 100) = 123
   \<and> (123 - 1 / 2 + \<bar>5559995481163911 / 2 ^ 52 * 100\<bar> / 2 ^ 53 :: real)
        \<le> 5559995481163911 / 2 ^ 52 * 100
   \<and> (5559995481163911 / 2 ^ 52 * 100 + \<bar>5559995481163911 / 2 ^ 52 * 100\<bar> / 2 ^ 53 :: real)
        < 123 + 1 / 2
   \<and> roundHours (5559995481163911 / 2 ^ 52) = 123 / 100
   \<and> roundHours64 (5559995481163911 / 2 ^ 52) = Some (2769713770832855 / 2 ^ 51)
   \<and> roundHours64 (5559995481163911 / 2 ^ 52) = fl (roundHours (5559995481163911 / 2 ^ 52))
   \<and> \<bar>2769713770832855 / 2 ^ 51 - 123 / 100\<bar> \<le> (\<bar>123 / 100\<bar> / 2 ^ 53 :: real)"
proof -
  have p: "fmul (5559995481163911 / 2 ^ 52) 100 = Some (8687492939318611 / 2 ^ 46)"
    by (simp add: fl_eval)
  have k: "Math_round (5559995481163911 / 2 ^ 52 * 100) = 123"
    by (simp add: Math_round_def)
  have k': "Math_round (8687492939318611 / 2 ^ 46) = 123"
    by (simp add: Math_round_def)
  have far: "(123 - 1 / 2 + \<bar>5559995481163911 / 2 ^ 52 * 100\<bar> / 2 ^ 53 :: real)
        \<le> 5559995481163911 / 2 ^ 52 * 100"
    "(5559995481163911 / 2 ^ 52 * 100 + \<bar>5559995481163911 / 2 ^ 52 * 100\<bar> / 2 ^ 53 :: real)
        < 123 + 1 / 2"
    by simp_all
  have h: "roundHours (5559995481163911 / 2 ^ 52) = 123 / 100"
    by (simp add: roundHours_def Math_round_def)
  have r: "roundHours64 (5559995481163911 / 2 ^ 52) = Some (2769713770832855 / 2 ^ 51)"
    by (simp add: fl_eval)
  note inst = roundHours_binary64_rounding
    [of "5559995481163911 / 2 ^ 52" "8687492939318611 / 2 ^ 46" "2769713770832855 / 2 ^ 51"]
  from inst p r
  have "\<bar>2769713770832855 / 2 ^ 51 - real_of_int (Math_round (8687492939318611 / 2 ^ 46)) / 100\<bar>
      \<le> \<bar>real_of_int (Math_round (8687492939318611 / 2 ^ 46)) / 100\<bar> / 2 ^ 53"
    by blast
  then have b: "\<bar>2769713770832855 / 2 ^ 51 - 123 / 100\<bar> \<le> (\<bar>123 / 100\<bar> / 2 ^ 53 :: real)"
    unfolding k' by simp
  from far have far': "real_of_int (Math_round (5559995481163911 / 2 ^ 52 * 100)) - 1 / 2
        + \<bar>5559995481163911 / 2 ^ 52 * 100\<bar> / 2 ^ 53 \<le> 5559995481163911 / 2 ^ 52 * 100
      \<and> 5559995481163911 / 2 ^ 52 * 100 + \<bar>5559995481163911 / 2 ^ 52 * 100\<bar> / 2 ^ 53
        < real_of_int (Math_round (5559995481163911 / 2 ^ 52 * 100)) + 1 / 2"
    unfolding k by simp
  from inst p far'
  have c: "roundHours64 (5559995481163911 / 2 ^ 52) = fl (roundHours (5559995481163911 / 2 ^ 52))"
    by blast
  from p k far h r c b show ?thesis by blast
qed

subsection \<open>Claim C4\<close>

text \<open>
  C4. For every non-negative \<open>h\<close>, \<open>formatHoursToHHMM\<close> returns the string the
  specification's algorithm describes (\<open>toClockString\<close>: floor, round the remainder times
  60, carry 60 minutes into the next hour, hour unpadded, minutes padded to two digits).
  Both sides print the hour count with the same conversion. For \<open>h\<close> below \<open>2\<^sup>5\<^sup>3\<close>,
  where that conversion prints an integer digit for digit, the string is an hour count,
  which is the floor of \<open>h\<close> or one more, a colon, and the two digits of a minute count
  below 60. The listed inputs 0, 1, 1.5, 2.25, 8.75, 10.1 and
  1.9999 give "0:00", "1:00", "1:30", "2:15", "8:45", "10:06" and "2:00".
\<close>

theorem formatHoursToHHMM_algorithm:
  "(0 \<le> h \<longrightarrow>
      formatHoursToHHMM h = Inr (toClockString h)
      \<and> (h < 2 ^ 53 \<longrightarrow>
           (\<exists>H M. M < 60 \<and> (H = \<lfloor>h\<rfloor> \<or> H = \<lfloor>h\<rfloor> + 1) \<and>
              toClockString h =
                toString_int H @ '':'' @ [digit_char (M div 10), digit_char (M mod 10)])))
   \<and> formatHoursToHHMM 0 = Inr ''0:00''
   \<and> formatHoursToHHMM 1 = Inr ''1:00''
   \<and> formatHoursToHHMM 1.5 = Inr ''1:30''
   \<and> formatHoursToHHMM 2.25 = Inr ''2:15''
   \<and> formatHoursToHHMM 8.75 = Inr ''8:45''
   \<and> formatHoursToHHMM 10.1 = Inr ''10:06''
   \<and> formatHoursToHHMM 1.9999 = Inr ''2:00''"
proof -
  have general: "0 \<le> h \<longrightarrow>
      formatHoursToHHMM h = Inr (toClockString h)
      \<and> (h < 2 ^ 53 \<longrightarrow>
           (\<exists>H M. M < 60 \<and> (H = \<lfloor>h\<rfloor> \<or> H = \<lfloor>h\<rfloor> + 1) \<and>
              toClockString h =
                toString_int H @ '':'' @ [digit_char (M div 10), digit_char (M mod 10)]))"
    using format_is_toClockString [of h] format_two_digit_minutes [of h] by auto
  have listed:
    "formatHoursToHHMM 0 = Inr ''0:00''"
    "formatHoursToHHMM 1 = Inr ''1:00''"
    "formatHoursToHHMM 1.5 = Inr ''1:30''"
    "formatHoursToHHMM 2.25 = Inr ''2:15''"
    "formatHoursToHHMM 8.75 = Inr ''8:45''"
    "formatHoursToHHMM 10.1 = Inr ''10:06''"
    "formatHoursToHHMM 1.9999 = Inr ''2:00''"
    by (simp_all add: format_eval)
  from general listed show ?thesis by blast
qed

theorem formatHoursToHHMM_algorithm_witness:
  "(0::real) \<le> 3 / 2 \<and> (3 / 2 :: real) < 2 ^ 53
   \<and> formatHoursToHHMM (3 / 2) = Inr (toClockString (3 / 2))
   \<and> toClockString (3 / 2) = ''1:30''"
proof -
  have t: "toClockString (3 / 2) = ''1:30''"
    by (simp add: toClockString_def round_def toString_int_def padStart_def show_nat.simps
        digit_char_def)
  show ?thesis
    using formatHoursToHHMM_algorithm [of "3 / 2"] t by simp
qed

subsection \<open>Claim C5\<close>

text \<open>
  C5. \<open>formatHoursToHHMM\<close> fails exactly on negative input: for every \<open>h < 0\<close> it
  raises the error "Hours cannot be negative" (so at \<open>h = -1\<close>), and for every
  \<open>h \<ge> 0\<close> it returns a string.
\<close>

theorem formatHoursToHHMM_fails_iff_negative:
  "(h < 0 \<longrightarrow> formatHoursToHHMM h = Inl (Error ''Hours cannot be negative''))
   \<and> (0 \<le> h \<longrightarrow> (\<exists>s. formatHoursToHHMM h = Inr s))
   \<and> formatHoursToHHMM (- 1) = Inl (Error ''Hours cannot be negative'')"
  by (simp add: formatHoursToHHMM_def Let_def)

theorem formatHoursToHHMM_fails_iff_negative_witness:
  "(- 1 :: real) < 0 \<and> formatHoursToHHMM (- 1) = Inl (Error ''Hours cannot be negative'')
   \<and> (0::real) \<le> 2 \<and> formatHoursToHHMM 2 = Inr ''2:00''"
  using formatHoursToHHMM_fails_iff_negative [of "- 1"] formatHoursToHHMM_fails_iff_negative [of 2]
  by (simp add: format_eval)

subsection \<open>Claim C2\<close>

text \<open>
  C2 as stated fails: \<open>createTimeFormat\<close> stores the rounded hours but formats the
  unrounded input, and the two can differ. At 0.006 hours the stored pair is
  (0.01, "0:00"), while formatting the stored 0.01 gives "0:01".
\<close>

theorem createTimeFormat_rounding_diverges:
  "createTimeFormat 0.006 = Inr \<lparr>TimeFormat.hours = 0.01, TimeFormat.hoursFormatted = ''0:00''\<rparr>
   \<and> formatHoursToHHMM 0.01 = Inr ''0:01''"
  by (simp add: createTimeFormat_def roundHours_def format_eval)

text \<open>
  C2 (amended). For every \<open>h \<ge> 0\<close>, \<open>createTimeFormat h\<close> succeeds; its hours field is
  \<open>roundHours h\<close> and its clock string is the rendering of the unrounded \<open>h\<close>. When
  \<open>h\<close> is a whole number of hundredths, formatting the stored hours field yields the
  stored clock string.
\<close>

theorem createTimeFormat_consistent:
  "0 \<le> h \<Longrightarrow>
     createTimeFormat h = Inr \<lparr>TimeFormat.hours = roundHours h, TimeFormat.hoursFormatted = toClockString h\<rparr>
     \<and> formatHoursToHHMM h = Inr (toClockString h)
     \<and> (h = real_of_int k / 100 \<longrightarrow> formatHoursToHHMM (roundHours h) = Inr (toClockString h))"
proof -
  assume h: "0 \<le> h"
  have "formatHoursToHHMM (roundHours h) = Inr (toClockString h)" if "h = real_of_int k / 100"
  proof -
    have "roundHours h = h" unfolding that by (rule roundHours_cents)
    then show ?thesis using h by (simp add: format_is_toClockString)
  qed
  moreover have "createTimeFormat h = Inr \<lparr>TimeFormat.hours = roundHours h, TimeFormat.hoursFormatted = toClockString h\<rparr>"
    using h by (rule createTimeFormat_nonneg)
  moreover have "formatHoursToHHMM h = Inr (toClockString h)"
    using h by (rule format_is_toClockString)
  ultimately show ?thesis by blast
qed

theorem createTimeFormat_consistent_witness:
  "(0::real) \<le> 5 / 2 \<and> (5 / 2 :: real) = real_of_int 250 / 100
   \<and> createTimeFormat (5 / 2) = Inr \<lparr>TimeFormat.hours = 5 / 2, TimeFormat.hoursFormatted = ''2:30''\<rparr>
   \<and> formatHoursToHHMM (roundHours (5 / 2)) = Inr ''2:30''"
proof -
  have t: "toClockString (5 / 2) = ''2:30''"
    by (simp add: toClockString_def round_def toString_int_def padStart_def show_nat.simps
        digit_char_def)
  have r: "roundHours (5 / 2) = 5 / 2" by (simp add: roundHours_def Math_round_def)
  have n: "(0::real) \<le> 5 / 2" by simp
  show ?thesis
    using createTimeFormat_consistent [OF n, of 250] by (simp add: t r)
qed

section \<open>Properties of the activity aggregation\<close>

lemma update_set_cases:
  "(k', v') \<in> set (AList.update k v al) \<Longrightarrow> (k', v') = (k, v) \<or> (k', v') \<in> set al"
  by (induction al) (auto split: if_splits)

lemma map_result_all2:
  "map_result f xs = Inr ys \<longleftrightarrow> list_all2 (\<lambda>x y. f x = Inr y) xs ys"
proof (induction xs arbitrary: ys)
  case Nil
  then show ?case by auto
next
  case (Cons x xs)
  show ?case
  proof (cases ys)
    case Nil
    then show ?thesis by (auto split: sum.splits)
  next
    case (Cons y ys')
    show ?thesis
      unfolding Cons by (auto simp: Cons.IH [symmetric] split: sum.splits)
  qed
qed

lemma map_result_total:
  "(\<And>x. x \<in> set xs \<Longrightarrow> \<exists>y. f x = Inr y) \<Longrightarrow> \<exists>ys. map_result f xs = Inr ys"
proof (induction xs)
  case Nil
  then show ?case by simp
next
  case (Cons x xs)
  then obtain y ys where "f x = Inr y" "map_result f xs = Inr ys"
    by (metis list.set_intros)
  then show ?case by simp
qed

lemma all2_map_eq:
  "list_all2 R xs ys \<Longrightarrow> (\<And>x y. R x y \<Longrightarrow> g x = h y) \<Longrightarrow> map g xs = map h ys"
  by (induction rule: list_all2_induct) auto

lemma groupByDate_lookup:
  "map_of (groupByDate f x m) k =
     (if k = f x then Some ((case map_of m k of Some ys \<Rightarrow> ys | None \<Rightarrow> []) @ [x])
      else map_of m k)"
  by (auto simp: groupByDate_def Let_def update_conv' split: option.splits)

lemma groupByDate_fold_lookup:
  "map_of (fold (groupByDate f) xs m) k =
     (if k \<in> f ` set xs \<or> map_of m k \<noteq> None
      then Some ((case map_of m k of Some ys \<Rightarrow> ys | None \<Rightarrow> []) @ filter (\<lambda>x. f x = k) xs)
      else None)"
proof (induction xs arbitrary: m)
  case Nil
  then show ?case by (auto split: option.splits)
next
  case (Cons x xs)
  show ?case
    by (auto simp: Cons.IH groupByDate_lookup split: option.splits)
qed

lemma groupByDate_distinct:
  "distinct (map fst m) \<Longrightarrow> distinct (map fst (groupByDate f x m))"
  by (simp add: groupByDate_def Let_def distinct_update)

lemma groupByDate_fold_distinct:
  "distinct (map fst m) \<Longrightarrow> distinct (map fst (fold (groupByDate f) xs m))"
  by (induction xs arbitrary: m) (simp_all add: groupByDate_distinct)

lemma groupByDate_keys:
  "set (map fst (fold (groupByDate f) xs [])) = f ` set xs"
proof -
  have "dom (map_of (fold (groupByDate f) xs [])) = f ` set xs"
    by (auto simp: groupByDate_fold_lookup dom_def)
  then show ?thesis by (simp add: dom_map_of_conv_image_fst)
qed

lemma leafHours_addActivity:
  "leafHours (addActivity a pm) p t =
     (if p = NamedRef.id' (project a) \<and> t = NamedRef.id' (task a)
      then Some ((case leafHours pm p t of Some h \<Rightarrow> h | None \<Rightarrow> 0) + Activity.hours a)
      else leafHours pm p t)"
  by (auto simp: leafHours_def addActivity_def Let_def update_conv' split: option.splits)

lemma leafHours_fold:
  "leafHours (fold addActivity acts pm) p t =
     (if (\<exists>a\<in>set acts. NamedRef.id' (project a) = p \<and> NamedRef.id' (task a) = t)
         \<or> leafHours pm p t \<noteq> None
      then Some ((case leafHours pm p t of Some h \<Rightarrow> h | None \<Rightarrow> 0) +
             sum_list (map Activity.hours
               (filter (\<lambda>a. NamedRef.id' (project a) = p \<and> NamedRef.id' (task a) = t) acts)))
      else None)"
proof (induction acts arbitrary: pm)
  case Nil
  then show ?case by (auto split: option.splits)
next
  case (Cons a acts)
  show ?case
    by (auto simp: Cons.IH leafHours_addActivity split: option.splits)
qed

lemma addActivity_distinct:
  assumes "distinct_projectsMap pm"
  shows "distinct_projectsMap (addActivity a pm)"
proof -
  define pid where "pid = NamedRef.id' (project a)"
  define pm1 where "pm1 = (if map_of pm pid = None
      then AList.update pid (NamedRef.name (project a), []) pm else pm)"
  define prj where "prj = (case map_of pm1 pid of
      Some p \<Rightarrow> p | None \<Rightarrow> (NamedRef.name (project a), []))"
  define tid where "tid = NamedRef.id' (task a)"
  define tasks1 where "tasks1 = (if map_of (snd prj) tid = None
      then AList.update tid (NamedRef.name (task a), 0) (snd prj) else snd prj)"
  define tsk where "tsk = (case map_of tasks1 tid of
      Some t \<Rightarrow> t | None \<Rightarrow> (NamedRef.name (task a), 0))"
  define tasks2 where "tasks2 = AList.update tid (fst tsk, snd tsk + Activity.hours a) tasks1"
  have res: "addActivity a pm = AList.update pid (fst prj, tasks2) pm1"
    unfolding addActivity_def Let_def pid_def pm1_def prj_def tid_def tasks1_def tsk_def
      tasks2_def by (rule refl)
  have d1: "distinct_projectsMap pm1"
    using assms unfolding distinct_projectsMap_def pm1_def
    by (auto simp: distinct_update dest!: update_set_cases)
  have "distinct (map fst (snd prj))"
  proof (cases "map_of pm1 pid")
    case None
    then show ?thesis by (simp add: prj_def)
  next
    case (Some p)
    then have "(pid, p) \<in> set pm1" by (rule map_of_SomeD)
    with d1 Some show ?thesis by (auto simp: prj_def distinct_projectsMap_def)
  qed
  then have "distinct (map fst tasks2)"
    by (simp add: tasks2_def tasks1_def distinct_update)
  with d1 show ?thesis
    unfolding res distinct_projectsMap_def
    by (auto simp: distinct_update dest!: update_set_cases)
qed

lemma addActivity_nonneg:
  assumes "nonneg_projectsMap pm" and "0 \<le> Activity.hours a"
  shows "nonneg_projectsMap (addActivity a pm)"
proof -
  define pid where "pid = NamedRef.id' (project a)"
  define pm1 where "pm1 = (if map_of pm pid = None
      then AList.update pid (NamedRef.name (project a), []) pm else pm)"
  define prj where "prj = (case map_of pm1 pid of
      Some p \<Rightarrow> p | None \<Rightarrow> (NamedRef.name (project a), []))"
  define tid where "tid = NamedRef.id' (task a)"
  define tasks1 where "tasks1 = (if map_of (snd prj) tid = None
      then AList.update tid (NamedRef.name (task a), 0) (snd prj) else snd prj)"
  define tsk where "tsk = (case map_of tasks1 tid of
      Some t \<Rightarrow> t | None \<Rightarrow> (NamedRef.name (task a), 0))"
  define tasks2 where "tasks2 = AList.update tid (fst tsk, snd tsk + Activity.hours a) tasks1"
  have res: "addActivity a pm = AList.update pid (fst prj, tasks2) pm1"
    unfolding addActivity_def Let_def pid_def pm1_def prj_def tid_def tasks1_def tsk_def
      tasks2_def by (rule refl)
  have n1: "nonneg_projectsMap pm1"
    using assms(1) unfolding nonneg_projectsMap_def pm1_def
    by (auto dest!: update_set_cases)
  have np: "\<forall>te\<in>set (snd prj). 0 \<le> snd (snd te)"
  proof (cases "map_of pm1 pid")
    case None
    then show ?thesis by (simp add: prj_def)
  next
    case (Some p)
    then have "(pid, p) \<in> set pm1" by (rule map_of_SomeD)
    with n1 Some show ?thesis by (auto simp: prj_def nonneg_projectsMap_def)
  qed
  then have n3: "\<forall>te\<in>set tasks1. 0 \<le> snd (snd te)"
    unfolding tasks1_def by (auto dest!: update_set_cases)
  have "0 \<le> snd tsk"
  proof (cases "map_of tasks1 tid")
    case None
    then show ?thesis by (simp add: tsk_def)
  next
    case (Some t)
    then have "(tid, t) \<in> set tasks1" by (rule map_of_SomeD)
    with n3 Some show ?thesis by (auto simp: tsk_def)
  qed
  with n3 assms(2) have "\<forall>te\<in>set tasks2. 0 \<le> snd (snd te)"
    unfolding tasks2_def by (auto dest!: update_set_cases)
  with n1 show ?thesis
    unfolding res nonneg_projectsMap_def
    by (auto dest!: update_set_cases)
qed

lemma fold_addActivity_distinct:
  "distinct_projectsMap pm \<Longrightarrow> distinct_projectsMap (fold addActivity acts pm)"
  by (induction acts arbitrary: pm) (simp_all add: addActivity_distinct)

lemma fold_addActivity_nonneg:
  "nonneg_projectsMap pm \<Longrightarrow> \<forall>a\<in>set acts. 0 \<le> Activity.hours a \<Longrightarrow>
   nonneg_projectsMap (fold addActivity acts pm)"
  by (induction acts arbitrary: pm) (simp_all add: addActivity_nonneg)

lemma createTimeFormat_Inl_iff:
  "createTimeFormat h = Inl e \<longleftrightarrow> h < 0 \<and> e = Error ''Hours cannot be negative''"
  by (cases "0 \<le> h") (auto simp: createTimeFormat_def format_is_toClockString format_negative)

lemma taskSummary_Inr:
  "taskSummary (t, tn, h) = Inr ts \<longleftrightarrow>
     0 \<le> h \<and> ts = \<lparr>TaskActivitySummary.taskId = t, TaskActivitySummary.taskName = tn,
                     TaskActivitySummary.hours = h,
                     TaskActivitySummary.hoursFormatted = toClockString h\<rparr>"
  by (auto simp: taskSummary_def createTimeFormat_Inr_iff createTimeFormat_Inl_iff
      split: sum.splits)

lemma projectSummary_Inr:
  "projectSummary (p, pn, es) = Inr ps \<longleftrightarrow>
     (\<exists>ts. map_result taskSummary es = Inr ts
        \<and> 0 \<le> sumHours (map TaskActivitySummary.hours ts)
        \<and> ps = \<lparr>ProjectActivitySummary.projectId = p, ProjectActivitySummary.projectName = pn,
                 ProjectActivitySummary.tasks = ts,
                 projectTotal =
                   \<lparr>TimeFormat.hours = roundHours (sumHours (map TaskActivitySummary.hours ts)),
                    TimeFormat.hoursFormatted =
                      toClockString (sumHours (map TaskActivitySummary.hours ts))\<rparr>\<rparr>)"
  by (auto simp: projectSummary_def createTimeFormat_Inr_iff createTimeFormat_Inl_iff
      split: sum.splits)

lemma createDailySummary_Inr:
  "createDailySummary day acts = Inr d \<longleftrightarrow>
     (\<exists>ps. map_result projectSummary (fold addActivity acts []) = Inr ps
        \<and> 0 \<le> sumHours (map (\<lambda>p. TimeFormat.hours (projectTotal p)) ps)
        \<and> d = \<lparr>DailyActivitySummary.date = day, projects = ps,
                dailyTotal =
                  \<lparr>TimeFormat.hours =
                      roundHours (sumHours (map (\<lambda>p. TimeFormat.hours (projectTotal p)) ps)),
                   TimeFormat.hoursFormatted =
                      toClockString (sumHours (map (\<lambda>p. TimeFormat.hours (projectTotal p)) ps))\<rparr>\<rparr>)"
  by (auto simp: createDailySummary_def Let_def createTimeFormat_Inr_iff createTimeFormat_Inl_iff
      split: sum.splits)

lemma tasks_of_entries:
  assumes "map_result taskSummary es = Inr ts"
  shows "map (\<lambda>t. (TaskActivitySummary.taskId t, TaskActivitySummary.taskName t,
                   TaskActivitySummary.hours t)) ts = es"
    and "\<forall>t\<in>set ts. 0 \<le> TaskActivitySummary.hours t"
proof -
  from assms have a: "list_all2 (\<lambda>e t. taskSummary e = Inr t) es ts"
    by (simp add: map_result_all2)
  have "map (\<lambda>e. e) es = map (\<lambda>t. (TaskActivitySummary.taskId t, TaskActivitySummary.taskName t,
                   TaskActivitySummary.hours t)) ts"
    using a by (rule all2_map_eq) (auto simp: taskSummary_Inr)
  then show "map (\<lambda>t. (TaskActivitySummary.taskId t, TaskActivitySummary.taskName t,
                   TaskActivitySummary.hours t)) ts = es" by simp
  show "\<forall>t\<in>set ts. 0 \<le> TaskActivitySummary.hours t"
    using a by (induction rule: list_all2_induct) (auto simp: taskSummary_Inr)
qed

lemma projects_of_entries:
  assumes "map_result projectSummary pm = Inr ps"
  shows "list_all2 (\<lambda>e p. ProjectActivitySummary.projectId p = fst e
            \<and> ProjectActivitySummary.projectName p = fst (snd e)
            \<and> map_result taskSummary (snd (snd e)) = Inr (ProjectActivitySummary.tasks p)
            \<and> 0 \<le> sumHours (map TaskActivitySummary.hours (ProjectActivitySummary.tasks p))
            \<and> TimeFormat.hours (projectTotal p) =
                roundHours (sumHours (map TaskActivitySummary.hours (ProjectActivitySummary.tasks p))))
          pm ps"
proof -
  from assms have "list_all2 (\<lambda>e p. projectSummary e = Inr p) pm ps"
    by (simp add: map_result_all2)
  then show ?thesis
  proof (rule list_all2_mono)
    fix e p assume "projectSummary e = Inr p"
    then show "ProjectActivitySummary.projectId p = fst e
            \<and> ProjectActivitySummary.projectName p = fst (snd e)
            \<and> map_result taskSummary (snd (snd e)) = Inr (ProjectActivitySummary.tasks p)
            \<and> 0 \<le> sumHours (map TaskActivitySummary.hours (ProjectActivitySummary.tasks p))
            \<and> TimeFormat.hours (projectTotal p) =
                roundHours (sumHours (map TaskActivitySummary.hours (ProjectActivitySummary.tasks p)))"
      by (cases e) (auto simp: projectSummary_Inr)
  qed
qed

lemma sumHours_nonneg: "\<forall>h\<in>set hs. 0 \<le> h \<Longrightarrow> 0 \<le> sumHours hs"
  by (simp add: sumHours_sum_list sum_list_nonneg)

lemma projectSummary_total:
  assumes "\<forall>te\<in>set es. 0 \<le> snd (snd te)"
  shows "\<exists>ps. projectSummary (p, pn, es) = Inr ps"
proof -
  have "\<exists>ts. map_result taskSummary es = Inr ts"
  proof (rule map_result_total)
    fix x assume "x \<in> set es"
    with assms have "0 \<le> snd (snd x)" by simp
    then show "\<exists>y. taskSummary x = Inr y"
      by (cases x) (simp add: taskSummary_Inr)
  qed
  then obtain ts where ts: "map_result taskSummary es = Inr ts" ..
  have "0 \<le> sumHours (map TaskActivitySummary.hours ts)"
    using tasks_of_entries(2) [OF ts] by (intro sumHours_nonneg) auto
  with ts show ?thesis by (simp add: projectSummary_Inr)
qed

lemma createDailySummary_total:
  assumes "\<forall>a\<in>set acts. 0 \<le> Activity.hours a"
  shows "\<exists>d. createDailySummary day acts = Inr d"
proof -
  have nn: "nonneg_projectsMap (fold addActivity acts [])"
    using assms by (intro fold_addActivity_nonneg) (simp_all add: nonneg_projectsMap_def)
  have "\<exists>ps. map_result projectSummary (fold addActivity acts []) = Inr ps"
  proof (rule map_result_total)
    fix x assume "x \<in> set (fold addActivity acts [])"
    with nn have "\<forall>te\<in>set (snd (snd x)). 0 \<le> snd (snd te)"
      by (simp add: nonneg_projectsMap_def)
    then show "\<exists>y. projectSummary x = Inr y"
      using projectSummary_total [of "snd (snd x)" "fst x" "fst (snd x)"] by simp
  qed
  then obtain ps where ps: "map_result projectSummary (fold addActivity acts []) = Inr ps" ..
  have "\<forall>p\<in>set ps. 0 \<le> TimeFormat.hours (projectTotal p)"
    using projects_of_entries [OF ps]
    by (induction rule: list_all2_induct) (auto simp: roundHours_nonneg)
  then have "0 \<le> sumHours (map (\<lambda>p. TimeFormat.hours (projectTotal p)) ps)"
    by (intro sumHours_nonneg) auto
  with ps show ?thesis by (simp add: createDailySummary_Inr)
qed

lemma createDailySummary_nonneg_day:
  assumes "createDailySummary day acts = Inr d"
  shows "nonneg_day d"
proof -
  from assms obtain ps where ps: "map_result projectSummary (fold addActivity acts []) = Inr ps"
    and s0: "0 \<le> sumHours (map (\<lambda>p. TimeFormat.hours (projectTotal p)) ps)"
    and d: "projects d = ps"
      "TimeFormat.hours (dailyTotal d) =
         roundHours (sumHours (map (\<lambda>p. TimeFormat.hours (projectTotal p)) ps))"
    by (auto simp: createDailySummary_Inr)
  have "\<forall>p\<in>set ps. 0 \<le> TimeFormat.hours (projectTotal p) \<and>
         (\<forall>t\<in>set (ProjectActivitySummary.tasks p). 0 \<le> TaskActivitySummary.hours t)"
    using projects_of_entries [OF ps]
    by (induction rule: list_all2_induct) (auto simp: roundHours_nonneg dest: tasks_of_entries(2))
  with s0 d show ?thesis by (simp add: nonneg_day_def roundHours_nonneg)
qed

lemma addTaskTotal_nonneg:
  assumes "\<forall>te\<in>set tt. 0 \<le> snd (snd te)" and "0 \<le> TaskActivitySummary.hours t"
  shows "\<forall>te\<in>set (addTaskTotal t tt). 0 \<le> snd (snd te)"
proof -
  define tid where "tid = TaskActivitySummary.taskId t"
  define tt1 where "tt1 = (if map_of tt tid = None
      then AList.update tid (TaskActivitySummary.taskName t, 0) tt else tt)"
  define entry where "entry = (case map_of tt1 tid of
      Some x \<Rightarrow> x | None \<Rightarrow> (TaskActivitySummary.taskName t, 0))"
  have res: "addTaskTotal t tt =
      AList.update tid (fst entry, snd entry + TaskActivitySummary.hours t) tt1"
    unfolding addTaskTotal_def Let_def tid_def tt1_def entry_def by (rule refl)
  have n1: "\<forall>te\<in>set tt1. 0 \<le> snd (snd te)"
    using assms(1) unfolding tt1_def by (auto dest!: update_set_cases)
  have "0 \<le> snd entry"
  proof (cases "map_of tt1 tid")
    case None
    then show ?thesis by (simp add: entry_def)
  next
    case (Some x)
    then have "(tid, x) \<in> set tt1" by (rule map_of_SomeD)
    with n1 Some show ?thesis by (auto simp: entry_def)
  qed
  with n1 assms(2) show ?thesis
    unfolding res by (auto dest!: update_set_cases)
qed

lemma fold_addTaskTotal_nonneg:
  "\<forall>te\<in>set tt. 0 \<le> snd (snd te) \<Longrightarrow> \<forall>t\<in>set ts. 0 \<le> TaskActivitySummary.hours t \<Longrightarrow>
   \<forall>te\<in>set (fold addTaskTotal ts tt). 0 \<le> snd (snd te)"
proof (induction ts arbitrary: tt)
  case Nil
  then show ?case by simp
next
  case (Cons t ts)
  have "\<forall>te\<in>set (addTaskTotal t tt). 0 \<le> snd (snd te)"
    using Cons.prems by (intro addTaskTotal_nonneg) simp_all
  then show ?case using Cons.prems by (simp add: Cons.IH)
qed

lemma addProjectTotal_nonneg:
  assumes "nonneg_totals ptm" and "0 \<le> TimeFormat.hours (projectTotal p)"
    and "\<forall>t\<in>set (ProjectActivitySummary.tasks p). 0 \<le> TaskActivitySummary.hours t"
  shows "nonneg_totals (addProjectTotal p ptm)"
proof -
  define pid where "pid = ProjectActivitySummary.projectId p"
  define map1 where "map1 = (if map_of ptm pid = None
      then AList.update pid (ProjectActivitySummary.projectName p, 0, []) ptm else ptm)"
  define entry where "entry = (case map_of map1 pid of
      Some x \<Rightarrow> x | None \<Rightarrow> (ProjectActivitySummary.projectName p, 0, []))"
  define totalHrs where "totalHrs = fst (snd entry) + TimeFormat.hours (projectTotal p)"
  define taskTotals where
    "taskTotals = fold addTaskTotal (ProjectActivitySummary.tasks p) (snd (snd entry))"
  have res: "addProjectTotal p ptm = AList.update pid (fst entry, totalHrs, taskTotals) map1"
    unfolding addProjectTotal_def Let_def pid_def map1_def entry_def totalHrs_def taskTotals_def
    by (rule refl)
  have n1: "nonneg_totals map1"
    using assms(1) unfolding nonneg_totals_def map1_def by (auto dest!: update_set_cases)
  have ne: "0 \<le> fst (snd entry) \<and> (\<forall>te\<in>set (snd (snd entry)). 0 \<le> snd (snd te))"
  proof (cases "map_of map1 pid")
    case None
    then show ?thesis by (simp add: entry_def)
  next
    case (Some x)
    then have "(pid, x) \<in> set map1" by (rule map_of_SomeD)
    with n1 Some show ?thesis by (auto simp: entry_def nonneg_totals_def)
  qed
  then have "0 \<le> totalHrs" using assms(2) by (simp add: totalHrs_def)
  moreover have "\<forall>te\<in>set taskTotals. 0 \<le> snd (snd te)"
    unfolding taskTotals_def using ne assms(3) by (intro fold_addTaskTotal_nonneg) simp_all
  ultimately show ?thesis
    using n1 unfolding res nonneg_totals_def by (auto dest!: update_set_cases)
qed

lemma fold_addProjectTotal_nonneg:
  "nonneg_totals ptm \<Longrightarrow>
   \<forall>p\<in>set ps. 0 \<le> TimeFormat.hours (projectTotal p) \<and>
      (\<forall>t\<in>set (ProjectActivitySummary.tasks p). 0 \<le> TaskActivitySummary.hours t) \<Longrightarrow>
   nonneg_totals (fold addProjectTotal ps ptm)"
proof (induction ps arbitrary: ptm)
  case Nil
  then show ?case by simp
next
  case (Cons p ps)
  have "nonneg_totals (addProjectTotal p ptm)"
    using Cons.prems by (intro addProjectTotal_nonneg) simp_all
  then show ?case using Cons.prems by (simp add: Cons.IH)
qed

lemma taskTotal_total: "0 \<le> h \<Longrightarrow> \<exists>x. taskTotal (t, tn, h) = Inr x"
  by (simp add: taskTotal_def createTimeFormat_nonneg)

lemma projectTotalEntry_total:
  assumes "0 \<le> tot" and "\<forall>te\<in>set tts. 0 \<le> snd (snd te)"
  shows "\<exists>x. projectTotalEntry (p, pn, tot, tts) = Inr x"
proof -
  have "\<exists>ts. map_result taskTotal tts = Inr ts"
  proof (rule map_result_total)
    fix x assume "x \<in> set tts"
    with assms(2) have "0 \<le> snd (snd x)" by simp
    then show "\<exists>y. taskTotal x = Inr y"
      using taskTotal_total [of "snd (snd x)" "fst x" "fst (snd x)"] by simp
  qed
  then obtain ts where "map_result taskTotal tts = Inr ts" ..
  then show ?thesis using assms(1) by (simp add: projectTotalEntry_def createTimeFormat_nonneg)
qed

lemma forEach_addDay:
  "forEach_result (addDay m) ds st = Inr st' \<longleftrightarrow>
     (\<exists>new. list_all2 (\<lambda>d sm. createDailySummary d
                 (case map_of m d of Some xs \<Rightarrow> xs | None \<Rightarrow> []) = Inr sm) ds new
        \<and> st' = (fst st @ new, fold addProjectTotal (concat (map projects new)) (snd st)))"
proof (induction ds arbitrary: st)
  case Nil
  then show ?case by auto
next
  case (Cons d ds)
  show ?case
  proof (cases "createDailySummary d (case map_of m d of Some xs \<Rightarrow> xs | None \<Rightarrow> [])")
    case (Inl e)
    then have "addDay m d st = Inl e" by (simp add: addDay_def)
    then show ?thesis using Inl by (simp add: list_all2_Cons1)
  next
    case (Inr sm)
    then have step: "addDay m d st =
        Inr (fst st @ [sm], fold addProjectTotal (projects sm) (snd st))"
      by (simp add: addDay_def)
    show ?thesis
      unfolding forEach_result.simps step sum.case Cons.IH
      using Inr by (auto simp: list_all2_Cons1)
  qed
qed

lemma day_lookup:
  "(case map_of (fold (groupByDate f) xs []) d of Some ys \<Rightarrow> ys | None \<Rightarrow> []) =
     filter (\<lambda>x. f x = d) xs"
proof (cases "d \<in> f ` set xs")
  case True
  then show ?thesis by (simp add: groupByDate_fold_lookup)
next
  case False
  then have "filter (\<lambda>x. f x = d) xs = []" by (auto simp: filter_empty_conv)
  with False show ?thesis by (simp add: groupByDate_fold_lookup)
qed

lemma sortedDates_set: "set (sortedDates acts) = Activity.date ` set acts"
  by (simp add: sortedDates_def groupByDate_keys [simplified])

lemma sortedDates_distinct: "distinct (sortedDates acts)"
  using groupByDate_fold_distinct [of "[]" Activity.date acts]
  by (simp add: sortedDates_def)

lemma sortedDates_sorted: "sorted (sortedDates acts)"
  by (simp add: sortedDates_def)

lemma forEach_addDay_map_result:
  "forEach_result (addDay (fold (groupByDate Activity.date) acts [])) ds st = Inr st' \<longleftrightarrow>
     (\<exists>new. map_result (\<lambda>d. createDailySummary d (filter (\<lambda>a. Activity.date a = d) acts)) ds
               = Inr new
        \<and> st' = (fst st @ new, fold addProjectTotal (concat (map projects new)) (snd st)))"
  by (simp add: forEach_addDay day_lookup map_result_all2)

lemma aggregateActivities_Inr:
  "aggregateActivities acts sd ed = Inr s \<longleftrightarrow>
     (\<exists>days totals.
        map_result (\<lambda>d. createDailySummary d (filter (\<lambda>a. Activity.date a = d) acts))
          (sortedDates acts) = Inr days
      \<and> map_result projectTotalEntry (fold addProjectTotal (concat (map projects days)) [])
           = Inr totals
      \<and> 0 \<le> sumHours (map (\<lambda>day. TimeFormat.hours (dailyTotal day)) days)
      \<and> s = \<lparr>startDate = sd, endDate = ed, dailySummaries = days, projectTotals = totals,
              grandTotal =
                \<lparr>TimeFormat.hours =
                    roundHours (sumHours (map (\<lambda>day. TimeFormat.hours (dailyTotal day)) days)),
                 TimeFormat.hoursFormatted =
                    toClockString (sumHours (map (\<lambda>day. TimeFormat.hours (dailyTotal day)) days))\<rparr>\<rparr>)"
proof (cases "map_result (\<lambda>d. createDailySummary d (filter (\<lambda>a. Activity.date a = d) acts))
          (sortedDates acts)")
  case (Inl e)
  then have "forEach_result (addDay (fold (groupByDate Activity.date) acts []))
      (sortedDates acts) ([], []) \<noteq> Inr st" for st
    by (simp add: forEach_addDay_map_result)
  then obtain e' where "forEach_result (addDay (fold (groupByDate Activity.date) acts []))
      (sortedDates acts) ([], []) = Inl e'"
    by (metis sum.exhaust)
  then have "aggregateActivities acts sd ed = Inl e'"
    unfolding aggregateActivities_def Let_def sortedDates_def [symmetric] by simp
  with Inl show ?thesis by simp
next
  case (Inr days)
  then have fe: "forEach_result (addDay (fold (groupByDate Activity.date) acts []))
      (sortedDates acts) ([], []) =
      Inr (days, fold addProjectTotal (concat (map projects days)) [])"
    by (simp add: forEach_addDay_map_result)
  show ?thesis
    unfolding aggregateActivities_def Let_def sortedDates_def [symmetric] fe Inr
    by (auto simp: createTimeFormat_Inr_iff createTimeFormat_Inl_iff split: sum.splits)
qed

lemma list_all2_total:
  "(\<And>x. x \<in> set xs \<Longrightarrow> \<exists>y. R x y) \<Longrightarrow> \<exists>ys. list_all2 R xs ys"
proof (induction xs)
  case Nil
  then show ?case by simp
next
  case (Cons x xs)
  then obtain y ys where "R x y" "list_all2 R xs ys" by (metis list.set_intros)
  then have "list_all2 R (x # xs) (y # ys)" by simp
  then show ?case ..
qed

lemma aggregateActivities_total:
  assumes "\<forall>a\<in>set acts. 0 \<le> Activity.hours a"
  shows "\<exists>s. aggregateActivities acts sd ed = Inr s"
proof -
  have "\<exists>days. map_result (\<lambda>d. createDailySummary d (filter (\<lambda>a. Activity.date a = d) acts))
      (sortedDates acts) = Inr days"
  proof (rule map_result_total)
    fix d
    show "\<exists>sm. createDailySummary d (filter (\<lambda>a. Activity.date a = d) acts) = Inr sm"
      using assms by (intro createDailySummary_total) simp
  qed
  then obtain days where days:
    "map_result (\<lambda>d. createDailySummary d (filter (\<lambda>a. Activity.date a = d) acts))
      (sortedDates acts) = Inr days" ..
  then have "list_all2
      (\<lambda>d sm. createDailySummary d (filter (\<lambda>a. Activity.date a = d) acts) = Inr sm)
      (sortedDates acts) days"
    by (simp add: map_result_all2)
  then have nd: "\<forall>sm\<in>set days. nonneg_day sm"
    by (induction rule: list_all2_induct) (auto dest: createDailySummary_nonneg_day)
  have "nonneg_totals (fold addProjectTotal (concat (map projects days)) [])"
    using nd by (intro fold_addProjectTotal_nonneg) (auto simp: nonneg_totals_def nonneg_day_def)
  then have "\<exists>totals. map_result projectTotalEntry
      (fold addProjectTotal (concat (map projects days)) []) = Inr totals"
  proof (intro map_result_total)
    fix x
    assume nt: "nonneg_totals (fold addProjectTotal (concat (map projects days)) [])"
      and x: "x \<in> set (fold addProjectTotal (concat (map projects days)) [])"
    then have "0 \<le> fst (snd (snd x))" "\<forall>te\<in>set (snd (snd (snd x))). 0 \<le> snd (snd te)"
      by (auto simp: nonneg_totals_def)
    then show "\<exists>y. projectTotalEntry x = Inr y"
      using projectTotalEntry_total [of "fst (snd (snd x))" "snd (snd (snd x))" "fst x" "fst (snd x)"]
      by simp
  qed
  then obtain totals where totals: "map_result projectTotalEntry
      (fold addProjectTotal (concat (map projects days)) []) = Inr totals" ..
  have "0 \<le> sumHours (map (\<lambda>day. TimeFormat.hours (dailyTotal day)) days)"
    using nd by (intro sumHours_nonneg) (auto simp: nonneg_day_def)
  with days totals show ?thesis
    unfolding aggregateActivities_Inr by blast
qed

lemma all2_set2: "list_all2 R xs ys \<Longrightarrow> y \<in> set ys \<Longrightarrow> \<exists>x\<in>set xs. R x y"
  by (induction rule: list_all2_induct) auto

lemma all2_set1: "list_all2 R xs ys \<Longrightarrow> x \<in> set xs \<Longrightarrow> \<exists>y\<in>set ys. R x y"
  by (induction rule: list_all2_induct) auto

lemma leafHours_day:
  "leafHours (fold addActivity acts []) p t =
     (if \<exists>a\<in>set acts. NamedRef.id' (project a) = p \<and> NamedRef.id' (task a) = t
      then Some (sumHours (map Activity.hours
             (filter (\<lambda>a. NamedRef.id' (project a) = p \<and> NamedRef.id' (task a) = t) acts)))
      else None)"
proof -
  have "leafHours [] p t = None" by (simp add: leafHours_def)
  then show ?thesis by (simp add: leafHours_fold sumHours_sum_list)
qed

lemma day_structure:
  assumes "createDailySummary day acts = Inr d"
  shows "DailyActivitySummary.date d = day"
    and "distinct (map ProjectActivitySummary.projectId (projects d))"
    and "\<forall>p\<in>set (projects d).
           distinct (map TaskActivitySummary.taskId (ProjectActivitySummary.tasks p)) \<and>
           TimeFormat.hours (projectTotal p) =
             roundHours (sumHours (map TaskActivitySummary.hours (ProjectActivitySummary.tasks p))) \<and>
           (\<forall>t\<in>set (ProjectActivitySummary.tasks p).
              leafHours (fold addActivity acts []) (ProjectActivitySummary.projectId p)
                (TaskActivitySummary.taskId t) = Some (TaskActivitySummary.hours t))"
    and "leafHours (fold addActivity acts []) pid tid \<noteq> None \<Longrightarrow>
         \<exists>p\<in>set (projects d). \<exists>t\<in>set (ProjectActivitySummary.tasks p).
           ProjectActivitySummary.projectId p = pid \<and> TaskActivitySummary.taskId t = tid"
    and "TimeFormat.hours (dailyTotal d) =
           roundHours (sumHours (map (\<lambda>p. TimeFormat.hours (projectTotal p)) (projects d)))"
proof -
  define pm where "pm = fold addActivity acts []"
  from assms obtain ps where ps: "map_result projectSummary pm = Inr ps"
    and d: "projects d = ps" "DailyActivitySummary.date d = day"
      "TimeFormat.hours (dailyTotal d) =
         roundHours (sumHours (map (\<lambda>p. TimeFormat.hours (projectTotal p)) ps))"
    by (auto simp: createDailySummary_Inr pm_def)
  note all2 = projects_of_entries [OF ps]
  have dist: "distinct_projectsMap pm"
    unfolding pm_def by (intro fold_addActivity_distinct) (simp add: distinct_projectsMap_def)
  show "DailyActivitySummary.date d = day" by (rule d(2))
  have "map fst pm = map ProjectActivitySummary.projectId ps"
    using all2 by (rule all2_map_eq) simp
  then show "distinct (map ProjectActivitySummary.projectId (projects d))"
    using dist by (simp add: d(1) distinct_projectsMap_def)
  have per_project: "distinct (map TaskActivitySummary.taskId (ProjectActivitySummary.tasks p)) \<and>
           TimeFormat.hours (projectTotal p) =
             roundHours (sumHours (map TaskActivitySummary.hours (ProjectActivitySummary.tasks p))) \<and>
           (\<forall>t\<in>set (ProjectActivitySummary.tasks p).
              leafHours pm (ProjectActivitySummary.projectId p)
                (TaskActivitySummary.taskId t) = Some (TaskActivitySummary.hours t))"
    if "p \<in> set ps" for p
  proof -
    from all2_set2 [OF all2 that] obtain e where e: "e \<in> set pm"
      "ProjectActivitySummary.projectId p = fst e"
      "map_result taskSummary (snd (snd e)) = Inr (ProjectActivitySummary.tasks p)"
      "TimeFormat.hours (projectTotal p) =
         roundHours (sumHours (map TaskActivitySummary.hours (ProjectActivitySummary.tasks p)))"
      by blast
    have es: "map (\<lambda>t. (TaskActivitySummary.taskId t, TaskActivitySummary.taskName t,
                   TaskActivitySummary.hours t)) (ProjectActivitySummary.tasks p) = snd (snd e)"
      by (rule tasks_of_entries(1) [OF e(3)])
    have de: "distinct (map fst (snd (snd e)))"
      using dist e(1) by (simp add: distinct_projectsMap_def)
    have "map fst (snd (snd e)) = map TaskActivitySummary.taskId (ProjectActivitySummary.tasks p)"
      by (simp add: es [symmetric] comp_def)
    with de have dt: "distinct (map TaskActivitySummary.taskId (ProjectActivitySummary.tasks p))"
      by simp
    have lk: "map_of pm (fst e) = Some (snd e)"
      using dist e(1) by (simp add: distinct_projectsMap_def)
    have "leafHours pm (ProjectActivitySummary.projectId p) (TaskActivitySummary.taskId t) =
        Some (TaskActivitySummary.hours t)" if "t \<in> set (ProjectActivitySummary.tasks p)" for t
    proof -
      have "(TaskActivitySummary.taskId t, TaskActivitySummary.taskName t,
              TaskActivitySummary.hours t) \<in> set (snd (snd e))"
        using that by (subst es [symmetric]) (simp add: image_iff, blast)
      then have "map_of (snd (snd e)) (TaskActivitySummary.taskId t) =
          Some (TaskActivitySummary.taskName t, TaskActivitySummary.hours t)"
        using de by simp
      then show ?thesis by (simp add: leafHours_def e(2) lk)
    qed
    with dt e(4) show ?thesis by blast
  qed
  then show "\<forall>p\<in>set (projects d).
           distinct (map TaskActivitySummary.taskId (ProjectActivitySummary.tasks p)) \<and>
           TimeFormat.hours (projectTotal p) =
             roundHours (sumHours (map TaskActivitySummary.hours (ProjectActivitySummary.tasks p))) \<and>
           (\<forall>t\<in>set (ProjectActivitySummary.tasks p).
              leafHours (fold addActivity acts []) (ProjectActivitySummary.projectId p)
                (TaskActivitySummary.taskId t) = Some (TaskActivitySummary.hours t))"
    by (simp add: d(1) pm_def)
  show "\<exists>p\<in>set (projects d). \<exists>t\<in>set (ProjectActivitySummary.tasks p).
           ProjectActivitySummary.projectId p = pid \<and> TaskActivitySummary.taskId t = tid"
    if "leafHours (fold addActivity acts []) pid tid \<noteq> None"
  proof -
    from that obtain prj te where prj: "map_of pm pid = Some prj"
      and te: "map_of (snd prj) tid = Some te"
      by (auto simp: leafHours_def pm_def split: option.splits)
    from prj have "(pid, prj) \<in> set pm" by (rule map_of_SomeD)
    from all2_set1 [OF all2 this] obtain p where p: "p \<in> set ps"
      "ProjectActivitySummary.projectId p = pid"
      "map_result taskSummary (snd prj) = Inr (ProjectActivitySummary.tasks p)"
      by auto
    have es: "map (\<lambda>t. (TaskActivitySummary.taskId t, TaskActivitySummary.taskName t,
                   TaskActivitySummary.hours t)) (ProjectActivitySummary.tasks p) = snd prj"
      by (rule tasks_of_entries(1) [OF p(3)])
    from te have "(tid, te) \<in> set (snd prj)" by (rule map_of_SomeD)
    then obtain t where "t \<in> set (ProjectActivitySummary.tasks p)"
      "TaskActivitySummary.taskId t = tid"
      by (subst (asm) es [symmetric]) auto
    with p(1,2) show ?thesis unfolding d(1) by blast
  qed
  show "TimeFormat.hours (dailyTotal d) =
           roundHours (sumHours (map (\<lambda>p. TimeFormat.hours (projectTotal p)) (projects d)))"
    by (simp add: d)
qed

lemmas aggregate_eval =
  aggregateActivities_def addDay_def createDailySummary_def projectSummary_def taskSummary_def
  addActivity_def groupByDate_def addProjectTotal_def addTaskTotal_def projectTotalEntry_def
  taskTotal_def createTimeFormat_def roundHours_def sumHours_def format_eval Let_def

lemma scenarioA_eval:
  "aggregateActivities scenarioA ''2024-01-15'' ''2024-01-15'' = Inr scenarioA_summary"
  by (simp add: scenarioA_def scenarioA_summary_def aggregate_eval)

lemma summary_days:
  assumes "aggregateActivities acts sd ed = Inr s"
  shows "list_all2
      (\<lambda>x d. createDailySummary x (filter (\<lambda>a. Activity.date a = x) acts) = Inr d)
      (sortedDates acts) (dailySummaries s)"
    and "TimeFormat.hours (grandTotal s) =
      roundHours (sumHours (map (\<lambda>d. TimeFormat.hours (dailyTotal d)) (dailySummaries s)))"
  using assms by (auto simp: aggregateActivities_Inr map_result_all2)

subsection \<open>Claim C1\<close>

text \<open>
  C1 as stated fails at the project level: task hours are kept unrounded while the project
  total is rounded to two decimals. One activity of 1.234 hours gives a project whose
  total is 1.23 while its tasks sum to 1.234.
\<close>

theorem project_total_differs_from_task_sum:
  "aggregateActivities unroundedActivity ''2024-01-15'' ''2024-01-15'' = Inr unroundedActivity_summary
   \<and> projects (hd (dailySummaries unroundedActivity_summary)) = [unroundedActivity_project]
   \<and> TimeFormat.hours (projectTotal unroundedActivity_project) = 1.23
   \<and> sumHours (map TaskActivitySummary.hours
        (ProjectActivitySummary.tasks unroundedActivity_project)) = 1.234"
  by (simp add: unroundedActivity_def unroundedActivity_summary_def unroundedActivity_project_def
      aggregate_eval)

text \<open>
  C1 (amended). Whenever \<open>aggregateActivities\<close> returns a summary (it does for every
  sequence of activities with non-negative hours), every total is the sum of the values
  below it, rounded to two decimals: the grand total's hours equal \<open>roundHours\<close> of
  \<open>sumHours\<close> of the daily totals' hours; each day's total hours equal \<open>roundHours\<close> of
  \<open>sumHours\<close> of its projects' total hours; and each project's total hours equal
  \<open>roundHours\<close> of \<open>sumHours\<close> of its tasks' hours.
\<close>

theorem activity_totals_additive:
  "((\<forall>a\<in>set acts. 0 \<le> Activity.hours a) \<longrightarrow> (\<exists>r. aggregateActivities acts sd ed = Inr r))
   \<and> (aggregateActivities acts sd ed = Inr s \<longrightarrow>
        TimeFormat.hours (grandTotal s) =
          roundHours (sumHours (map (\<lambda>d. TimeFormat.hours (dailyTotal d)) (dailySummaries s)))
        \<and> (\<forall>d\<in>set (dailySummaries s).
              TimeFormat.hours (dailyTotal d) =
                roundHours (sumHours (map (\<lambda>p. TimeFormat.hours (projectTotal p)) (projects d)))
              \<and> (\<forall>p\<in>set (projects d).
                    TimeFormat.hours (projectTotal p) =
                      roundHours (sumHours (map TaskActivitySummary.hours
                        (ProjectActivitySummary.tasks p))))))"
proof (intro conjI impI)
  assume "\<forall>a\<in>set acts. 0 \<le> Activity.hours a"
  then show "\<exists>r. aggregateActivities acts sd ed = Inr r"
    by (rule aggregateActivities_total)
next
  assume agg: "aggregateActivities acts sd ed = Inr s"
  note days = summary_days [OF agg]
  show "TimeFormat.hours (grandTotal s) =
          roundHours (sumHours (map (\<lambda>d. TimeFormat.hours (dailyTotal d)) (dailySummaries s)))"
    by (rule days(2))
  show "\<forall>d\<in>set (dailySummaries s).
              TimeFormat.hours (dailyTotal d) =
                roundHours (sumHours (map (\<lambda>p. TimeFormat.hours (projectTotal p)) (projects d)))
              \<and> (\<forall>p\<in>set (projects d).
                    TimeFormat.hours (projectTotal p) =
                      roundHours (sumHours (map TaskActivitySummary.hours
                        (ProjectActivitySummary.tasks p))))"
  proof
    fix d assume "d \<in> set (dailySummaries s)"
    from all2_set2 [OF days(1) this] obtain x where
      x: "createDailySummary x (filter (\<lambda>a. Activity.date a = x) acts) = Inr d" by blast
    show "TimeFormat.hours (dailyTotal d) =
                roundHours (sumHours (map (\<lambda>p. TimeFormat.hours (projectTotal p)) (projects d)))
              \<and> (\<forall>p\<in>set (projects d).
                    TimeFormat.hours (projectTotal p) =
                      roundHours (sumHours (map TaskActivitySummary.hours
                        (ProjectActivitySummary.tasks p))))"
      using day_structure(3,5) [OF x] by blast
  qed
qed

theorem activity_totals_additive_witness:
  "list_all (\<lambda>a. 0 \<le> Activity.hours a) scenarioA
   \<and> aggregateActivities scenarioA ''2024-01-15'' ''2024-01-15'' = Inr scenarioA_summary
   \<and> TimeFormat.hours (grandTotal scenarioA_summary) =
       roundHours (sumHours
         (map (\<lambda>d. TimeFormat.hours (dailyTotal d)) (dailySummaries scenarioA_summary)))
   \<and> roundHours (sumHours
         (map (\<lambda>d. TimeFormat.hours (dailyTotal d)) (dailySummaries scenarioA_summary))) = 7.75"
proof -
  have e: "aggregateActivities scenarioA ''2024-01-15'' ''2024-01-15'' = Inr scenarioA_summary"
    by (simp add: scenarioA_def scenarioA_summary_def aggregate_eval)
  have n: "list_all (\<lambda>a. 0 \<le> Activity.hours a) scenarioA"
    by (simp add: scenarioA_def)
  from activity_totals_additive [of scenarioA "''2024-01-15''" "''2024-01-15''" scenarioA_summary] e
  have g: "TimeFormat.hours (grandTotal scenarioA_summary) =
       roundHours (sumHours
         (map (\<lambda>d. TimeFormat.hours (dailyTotal d)) (dailySummaries scenarioA_summary)))"
    by blast
  have "TimeFormat.hours (grandTotal scenarioA_summary) = 7.75"
    by (simp add: scenarioA_summary_def)
  with g e n show ?thesis by simp
qed

subsection \<open>Claim C6\<close>

text \<open>
  C6. Whenever \<open>aggregateActivities\<close> returns a summary (it does for every sequence of
  activities with non-negative hours): the hours of every task leaf, under its project and
  day, are the sum of the hours of all input records with that date, project id and task
  id, each record counted once; every input record falls under one such leaf; and dates,
  project ids within a day and task ids within a project are not repeated, so the leaf of
  a record is unique. For the two records of Scenario A the daily total, the project
  total and the grand total are all 7.75 hours, "7:45".
\<close>

theorem leaf_totals_accumulate:
  "((\<forall>a\<in>set acts. 0 \<le> Activity.hours a) \<longrightarrow> (\<exists>r. aggregateActivities acts sd ed = Inr r))
   \<and> (aggregateActivities acts sd ed = Inr s \<longrightarrow>
        (\<forall>d\<in>set (dailySummaries s). \<forall>p\<in>set (projects d).
           \<forall>t\<in>set (ProjectActivitySummary.tasks p).
             TaskActivitySummary.hours t =
               sumHours (map Activity.hours
                 (recordsFor acts (DailyActivitySummary.date d)
                    (ProjectActivitySummary.projectId p) (TaskActivitySummary.taskId t))))
        \<and> (\<forall>a\<in>set acts. \<exists>d\<in>set (dailySummaries s). \<exists>p\<in>set (projects d).
              \<exists>t\<in>set (ProjectActivitySummary.tasks p).
                DailyActivitySummary.date d = Activity.date a
                \<and> ProjectActivitySummary.projectId p = NamedRef.id' (project a)
                \<and> TaskActivitySummary.taskId t = NamedRef.id' (task a))
        \<and> distinct (map DailyActivitySummary.date (dailySummaries s))
        \<and> (\<forall>d\<in>set (dailySummaries s).
              distinct (map ProjectActivitySummary.projectId (projects d))
              \<and> (\<forall>p\<in>set (projects d).
                    distinct (map TaskActivitySummary.taskId (ProjectActivitySummary.tasks p)))))
   \<and> aggregateActivities scenarioA ''2024-01-15'' ''2024-01-15'' = Inr scenarioA_summary
   \<and> map dailyTotal (dailySummaries scenarioA_summary) =
        [\<lparr>TimeFormat.hours = 7.75, TimeFormat.hoursFormatted = ''7:45''\<rparr>]
   \<and> map projectTotal (concat (map projects (dailySummaries scenarioA_summary))) =
        [\<lparr>TimeFormat.hours = 7.75, TimeFormat.hoursFormatted = ''7:45''\<rparr>]
   \<and> grandTotal scenarioA_summary =
        \<lparr>TimeFormat.hours = 7.75, TimeFormat.hoursFormatted = ''7:45''\<rparr>"
proof (intro conjI impI)
  assume "\<forall>a\<in>set acts. 0 \<le> Activity.hours a"
  then show "\<exists>r. aggregateActivities acts sd ed = Inr r"
    by (rule aggregateActivities_total)
next
  show "aggregateActivities scenarioA ''2024-01-15'' ''2024-01-15'' = Inr scenarioA_summary"
    by (simp add: scenarioA_def scenarioA_summary_def aggregate_eval)
next
  show "map dailyTotal (dailySummaries scenarioA_summary) =
        [\<lparr>TimeFormat.hours = 7.75, TimeFormat.hoursFormatted = ''7:45''\<rparr>]"
    by (simp add: scenarioA_summary_def)
next
  show "map projectTotal (concat (map projects (dailySummaries scenarioA_summary))) =
        [\<lparr>TimeFormat.hours = 7.75, TimeFormat.hoursFormatted = ''7:45''\<rparr>]"
    by (simp add: scenarioA_summary_def)
next
  show "grandTotal scenarioA_summary =
        \<lparr>TimeFormat.hours = 7.75, TimeFormat.hoursFormatted = ''7:45''\<rparr>"
    by (simp add: scenarioA_summary_def)
next
  assume agg: "aggregateActivities acts sd ed = Inr s"
  note days = summary_days(1) [OF agg]
  have "map (\<lambda>x. x) (sortedDates acts) = map DailyActivitySummary.date (dailySummaries s)"
    using days by (rule all2_map_eq) (simp add: day_structure(1))
  then have dates: "sortedDates acts = map DailyActivitySummary.date (dailySummaries s)"
    by simp
  show "distinct (map DailyActivitySummary.date (dailySummaries s))"
    using sortedDates_distinct [of acts] by (simp add: dates)
  have day: "createDailySummary (DailyActivitySummary.date d)
      (filter (\<lambda>a. Activity.date a = DailyActivitySummary.date d) acts) = Inr d"
    if "d \<in> set (dailySummaries s)" for d
  proof -
    from all2_set2 [OF days that] obtain x where
      x: "createDailySummary x (filter (\<lambda>a. Activity.date a = x) acts) = Inr d" by blast
    with day_structure(1) [OF x] show ?thesis by simp
  qed
  show "\<forall>d\<in>set (dailySummaries s).
              distinct (map ProjectActivitySummary.projectId (projects d))
              \<and> (\<forall>p\<in>set (projects d).
                    distinct (map TaskActivitySummary.taskId (ProjectActivitySummary.tasks p)))"
    using day_structure(2,3) [OF day] by blast
  show "\<forall>d\<in>set (dailySummaries s). \<forall>p\<in>set (projects d).
           \<forall>t\<in>set (ProjectActivitySummary.tasks p).
             TaskActivitySummary.hours t =
               sumHours (map Activity.hours
                 (recordsFor acts (DailyActivitySummary.date d)
                    (ProjectActivitySummary.projectId p) (TaskActivitySummary.taskId t)))"
  proof (intro ballI)
    fix d p t
    assume d: "d \<in> set (dailySummaries s)" and p: "p \<in> set (projects d)"
      and t: "t \<in> set (ProjectActivitySummary.tasks p)"
    from day_structure(3) [OF day [OF d]] p t
    have "leafHours (fold addActivity
              (filter (\<lambda>a. Activity.date a = DailyActivitySummary.date d) acts) [])
            (ProjectActivitySummary.projectId p) (TaskActivitySummary.taskId t) =
          Some (TaskActivitySummary.hours t)"
      by blast
    then show "TaskActivitySummary.hours t =
               sumHours (map Activity.hours
                 (recordsFor acts (DailyActivitySummary.date d)
                    (ProjectActivitySummary.projectId p) (TaskActivitySummary.taskId t)))"
      by (simp add: leafHours_day recordsFor_def split: if_splits)
  qed
  show "\<forall>a\<in>set acts. \<exists>d\<in>set (dailySummaries s). \<exists>p\<in>set (projects d).
              \<exists>t\<in>set (ProjectActivitySummary.tasks p).
                DailyActivitySummary.date d = Activity.date a
                \<and> ProjectActivitySummary.projectId p = NamedRef.id' (project a)
                \<and> TaskActivitySummary.taskId t = NamedRef.id' (task a)"
  proof
    fix a assume a: "a \<in> set acts"
    then have "Activity.date a \<in> set (map DailyActivitySummary.date (dailySummaries s))"
      using sortedDates_set [of acts] by (simp add: dates [symmetric])
    then obtain d where d: "d \<in> set (dailySummaries s)"
      "DailyActivitySummary.date d = Activity.date a" by auto
    have "leafHours (fold addActivity
              (filter (\<lambda>x. Activity.date x = DailyActivitySummary.date d) acts) [])
            (NamedRef.id' (project a)) (NamedRef.id' (task a)) \<noteq> None"
      using a d(2) by (auto simp: leafHours_day)
    from day_structure(4) [OF day [OF d(1)] this] d
    show "\<exists>d\<in>set (dailySummaries s). \<exists>p\<in>set (projects d).
              \<exists>t\<in>set (ProjectActivitySummary.tasks p).
                DailyActivitySummary.date d = Activity.date a
                \<and> ProjectActivitySummary.projectId p = NamedRef.id' (project a)
                \<and> TaskActivitySummary.taskId t = NamedRef.id' (task a)"
      by blast
  qed
qed

theorem leaf_totals_accumulate_witness:
  "list_all (\<lambda>a. 0 \<le> Activity.hours a) scenarioA
   \<and> aggregateActivities scenarioA ''2024-01-15'' ''2024-01-15'' = Inr scenarioA_summary
   \<and> sumHours (map Activity.hours (recordsFor scenarioA ''2024-01-15'' 123 456)) = 4.5
   \<and> sumHours (map Activity.hours (recordsFor scenarioA ''2024-01-15'' 123 789)) = 3.25"
proof -
  note inst = leaf_totals_accumulate
    [of scenarioA "''2024-01-15''" "''2024-01-15''" scenarioA_summary]
  from inst have e: "aggregateActivities scenarioA ''2024-01-15'' ''2024-01-15'' = Inr scenarioA_summary"
    by blast
  with inst have "\<forall>d\<in>set (dailySummaries scenarioA_summary). \<forall>p\<in>set (projects d).
           \<forall>t\<in>set (ProjectActivitySummary.tasks p).
             TaskActivitySummary.hours t =
               sumHours (map Activity.hours
                 (recordsFor scenarioA (DailyActivitySummary.date d)
                    (ProjectActivitySummary.projectId p) (TaskActivitySummary.taskId t)))"
    by blast
  then have "sumHours (map Activity.hours (recordsFor scenarioA ''2024-01-15'' 123 456)) = 4.5"
    and "sumHours (map Activity.hours (recordsFor scenarioA ''2024-01-15'' 123 789)) = 3.25"
    by (simp_all add: scenarioA_summary_def)
  moreover have "list_all (\<lambda>a. 0 \<le> Activity.hours a) scenarioA"
    by (simp add: scenarioA_def)
  ultimately show ?thesis using e by blast
qed

section \<open>Properties of the presence aggregation\<close>

lemma split_no_sep: "sep \<notin> set s \<Longrightarrow> split sep s = [s]"
  by (induction s) auto

lemma split_append: "sep \<notin> set a \<Longrightarrow> split sep (a @ sep # rest) = a # split sep rest"
  by (induction a) auto

lemma digit_cases:
  assumes "n < 10"
  obtains "n = 0" | "n = 1" | "n = 2" | "n = 3" | "n = 4" | "n = 5" | "n = 6" | "n = 7"
    | "n = 8" | "n = (9::nat)"
  using assms by atomize_elim arith

lemma isDigit_digit_char: "n < 10 \<Longrightarrow> isDigit (digit_char n)"
  by (erule digit_cases) (simp_all add: isDigit_def digit_char_def)

lemma digit_value_digit_char: "n < 10 \<Longrightarrow> digit_value (digit_char n) = n"
  by (erule digit_cases) (simp_all add: digit_value_def digit_char_def)

lemma show_nat_digits: "list_all isDigit (show_nat n)"
proof (induction n rule: show_nat.induct)
  case (1 n)
  show ?case
  proof (cases "n < 10")
    case True
    then show ?thesis by (simp add: show_nat_small isDigit_digit_char)
  next
    case False
    then have "show_nat n = show_nat (n div 10) @ [digit_char (n mod 10)]"
      by (subst show_nat.simps) simp
    with 1 False show ?thesis by (simp add: isDigit_digit_char)
  qed
qed

lemma show_nat_nonempty: "show_nat n \<noteq> []"
  by (subst show_nat.simps) simp

lemma decimal_value_snoc: "decimal_value (s @ [c]) = 10 * decimal_value s + digit_value c"
  by (simp add: decimal_value_def)

lemma decimal_value_show_nat: "decimal_value (show_nat n) = n"
proof (induction n rule: show_nat.induct)
  case (1 n)
  show ?case
  proof (cases "n < 10")
    case True
    then show ?thesis
      by (simp add: show_nat_small decimal_value_def digit_value_digit_char)
  next
    case False
    then have "show_nat n = show_nat (n div 10) @ [digit_char (n mod 10)]"
      by (subst show_nat.simps) simp
    with 1 False show ?thesis
      by (simp add: decimal_value_snoc digit_value_digit_char)
  qed
qed

lemma decimal_value_zeros: "decimal_value (replicate k (CHR ''0'') @ s) = decimal_value s"
proof -
  have "foldl (\<lambda>n c. 10 * n + digit_value c) 0 (replicate k (CHR ''0'')) = 0"
    by (induction k) (simp_all add: digit_value_def)
  then show ?thesis by (simp add: decimal_value_def)
qed

lemma padded_digits: "list_all isDigit (padStart k (CHR ''0'') (show_nat n))"
proof -
  have z: "isDigit (CHR ''0'')" by (simp add: isDigit_def)
  show ?thesis
    using z show_nat_digits [of n] by (auto simp: padStart_def list_all_iff)
qed

lemma Number_padded: "Number' (padStart k (CHR ''0'') (show_nat n)) = Some (real n)"
proof -
  have "padStart k (CHR ''0'') (show_nat n) \<noteq> []"
    by (simp add: padStart_def show_nat_nonempty)
  moreover have "decimal_value (padStart k (CHR ''0'') (show_nat n)) = n"
    by (simp add: padStart_def decimal_value_zeros decimal_value_show_nat)
  ultimately show ?thesis using padded_digits [of k n] by (simp add: Number'_def)
qed

lemma padded_no_colon: "CHR '':'' \<notin> set (padStart k (CHR ''0'') (show_nat n))"
proof -
  have "\<not> isDigit (CHR '':'')" by (simp add: isDigit_def)
  then show ?thesis using padded_digits [of k n] by (auto simp: list_all_iff)
qed

lemma splitTime_clockTime: "splitTime (clockTime h m) = Some (real h, real m)"
proof -
  have "split (CHR '':'') (clockTime h m) =
      [padStart 2 (CHR ''0'') (show_nat h), padStart 2 (CHR ''0'') (show_nat m)]"
    unfolding clockTime_def
    using split_append [OF padded_no_colon, of 2 h "padStart 2 (CHR ''0'') (show_nat m)"]
      split_no_sep [OF padded_no_colon, of 2 m]
    by simp
  then show ?thesis by (simp add: splitTime_def Number_padded)
qed

lemma calculateHoursFromTimes_clock:
  "calculateHoursFromTimes (clockTime h1 m1) (clockTime h2 m2) =
     Some (if real h2 * 60 + real m2 \<ge> real h1 * 60 + real m1
           then ((real h2 * 60 + real m2) - (real h1 * 60 + real m1)) / 60
           else ((real h2 * 60 + real m2) - (real h1 * 60 + real m1) + 24 * 60) / 60)"
  by (simp add: calculateHoursFromTimes_def splitTime_clockTime Let_def)

lemma clock_minutes_bound:
  assumes "h < 24" "m < 60"
  shows "real h * 60 + real m < 24 * 60"
proof -
  from assms have "h * 60 + m < 24 * 60" by simp
  then have "real (h * 60 + m) < real (24 * 60)" by (simp only: of_nat_less_iff)
  then show ?thesis by simp
qed

lemma validPresence_hours:
  assumes "validPresence p"
  shows "calculateHoursFromTimes (from' p) (case to' p of Some t \<Rightarrow> t | None \<Rightarrow> []) =
           Some (presenceHours p)"
    and "0 \<le> presenceHours p"
proof -
  from assms obtain h1 m1 h2 m2 where b: "h1 < 24" "m1 < 60" "h2 < 24" "m2 < 60"
    and f: "from' p = clockTime h1 m1" and t: "to' p = Some (clockTime h2 m2)"
    by (auto simp: validPresence_def)
  show c: "calculateHoursFromTimes (from' p) (case to' p of Some t \<Rightarrow> t | None \<Rightarrow> []) =
           Some (presenceHours p)"
    by (simp add: presenceHours_def f t calculateHoursFromTimes_clock)
  have "real h1 * 60 + real m1 < 24 * 60" using b by (intro clock_minutes_bound)
  moreover have "0 \<le> real h2 * 60 + real m2" by simp
  ultimately show "0 \<le> presenceHours p"
    by (simp add: presenceHours_def f t calculateHoursFromTimes_clock)
qed

lemma foldl_addPresenceHours:
  assumes "\<forall>q\<in>set cs. validPresence q"
  shows "foldl addPresenceHours (Some a) cs = Some (a + sum_list (map presenceHours cs))"
  using assms
proof (induction cs arbitrary: a)
  case Nil
  then show ?case by simp
next
  case (Cons c cs)
  then have "addPresenceHours (Some a) c = Some (a + presenceHours c)"
    by (simp add: addPresenceHours_def validPresence_hours(1))
  with Cons show ?case by (simp add: add.assoc)
qed

lemma createDailyPresenceSummary_valid:
  assumes "\<forall>q\<in>set ps. completed q \<longrightarrow> validPresence q"
  shows "createDailyPresenceSummary day ps =
     Inr \<lparr>DailyPresenceSummary.date = day,
          totalHours = roundHours (sumHours (map presenceHours (filter completed ps))),
          totalHoursFormatted = toClockString (sumHours (map presenceHours (filter completed ps)))\<rparr>"
proof -
  have v: "\<forall>q\<in>set (filter completed ps). validPresence q" using assms by simp
  have f: "foldl addPresenceHours (Some 0) (filter completed ps) =
      Some (sumHours (map presenceHours (filter completed ps)))"
    using foldl_addPresenceHours [OF v, of 0] by (simp add: sumHours_sum_list)
  have "0 \<le> sumHours (map presenceHours (filter completed ps))"
    using v by (intro sumHours_nonneg) (auto simp: validPresence_hours(2))
  then show ?thesis
    by (simp add: createDailyPresenceSummary_def f createTimeFormat_nonneg)
qed

lemma createDailyPresenceSummary_skip_open:
  assumes "to' p = None"
  shows "createDailyPresenceSummary day (xs @ p # ys) = createDailyPresenceSummary day (xs @ ys)"
proof -
  from assms have "\<not> completed p" by (simp add: completed_def)
  then show ?thesis by (simp add: createDailyPresenceSummary_def)
qed

lemma toClockString_0: "toClockString 0 = ''0:00''"
  by (simp add: toClockString_def round_def toString_int_def padStart_def show_nat.simps
      digit_char_def)

lemma roundHours_0: "roundHours 0 = 0"
  by (simp add: roundHours_def Math_round_def)

lemma createDailyPresenceSummary_all_open:
  assumes "\<forall>q\<in>set ps. to' q = None"
  shows "createDailyPresenceSummary day ps =
     Inr \<lparr>DailyPresenceSummary.date = day, totalHours = 0, totalHoursFormatted = ''0:00''\<rparr>"
proof -
  from assms have "filter completed ps = []"
    by (auto simp: filter_empty_conv completed_def)
  moreover have "createTimeFormat 0 =
      Inr \<lparr>TimeFormat.hours = 0, TimeFormat.hoursFormatted = ''0:00''\<rparr>"
    by (simp add: createTimeFormat_nonneg roundHours_0 toClockString_0)
  ultimately show ?thesis
    by (simp add: createDailyPresenceSummary_def roundHours_0)
qed

lemmas presence_eval =
  aggregatePresences_def createDailyPresenceSummary_def addPresenceHours_def completed_def
  calculateHoursFromTimes_def splitTime_def Number'_def isDigit_def decimal_value_def
  digit_value_def groupByDate_def presenceStatistics_def js_divide_def
  createTimeFormat_def roundHours_def sumHours_def format_eval Let_def

lemma clockTime_examples: "clockTime 9 0 = ''09:00''" "clockTime 17 30 = ''17:30''"
  by (simp_all add: clockTime_def padStart_def show_nat.simps digit_char_def)

lemma scenarioB_day:
  "createDailyPresenceSummary ''2024-01-15'' scenarioB =
     Inr \<lparr>DailyPresenceSummary.date = ''2024-01-15'', totalHours = 8.5,
          totalHoursFormatted = ''8:30''\<rparr>"
  by (simp add: scenarioB_def presence_eval)

lemma openPresence_eval:
  "aggregatePresences openPresence ''2024-01-15'' ''2024-01-15'' = Inr openPresence_summary"
  "presenceStatistics openPresence_summary = Inr (Some (1, Some (0, ''0:00'')))"
  "length (qualifyingDates openPresence) = 0"
  by (simp_all add: openPresence_def openRecord_def openPresence_summary_def qualifyingDates_def
      presence_eval)

lemma aggregatePresences_Inr:
  "aggregatePresences ps sd ed = Inr s \<longleftrightarrow>
     (\<exists>days.
        map_result (\<lambda>day. createDailyPresenceSummary day
                      (filter (\<lambda>p. UserPresence.date p = day) ps))
          (sort (map fst (fold (groupByDate UserPresence.date) ps []))) = Inr days
      \<and> 0 \<le> sumHours (map totalHours days)
      \<and> s = \<lparr>PresenceRangeSummary.startDate = sd, PresenceRangeSummary.endDate = ed,
              PresenceRangeSummary.dailySummaries = days,
              PresenceRangeSummary.grandTotal =
                \<lparr>TimeFormat.hours = roundHours (sumHours (map totalHours days)),
                 TimeFormat.hoursFormatted = toClockString (sumHours (map totalHours days))\<rparr>\<rparr>)"
  unfolding aggregatePresences_def Let_def day_lookup
  by (auto simp: createTimeFormat_Inr_iff createTimeFormat_Inl_iff split: sum.splits)

lemma date_count:
  "length (sort (map fst (fold (groupByDate f) xs []))) = card (f ` set xs)"
proof -
  have "distinct (map fst (fold (groupByDate f) xs []))"
    by (rule groupByDate_fold_distinct) simp
  then have "card (set (map fst (fold (groupByDate f) xs []))) =
      length (map fst (fold (groupByDate f) xs []))"
    by (rule distinct_card)
  then show ?thesis by (simp add: groupByDate_keys [simplified])
qed

lemma presence_summary_facts:
  assumes "aggregatePresences ps sd ed = Inr s"
  shows "length (PresenceRangeSummary.dailySummaries s) = card (UserPresence.date ` set ps)"
    and "0 \<le> TimeFormat.hours (PresenceRangeSummary.grandTotal s)"
proof -
  from assms obtain days where
    days: "map_result (\<lambda>day. createDailyPresenceSummary day
                      (filter (\<lambda>p. UserPresence.date p = day) ps))
          (sort (map fst (fold (groupByDate UserPresence.date) ps []))) = Inr days"
    and nn: "0 \<le> sumHours (map totalHours days)"
    and s: "PresenceRangeSummary.dailySummaries s = days"
      "TimeFormat.hours (PresenceRangeSummary.grandTotal s) =
         roundHours (sumHours (map totalHours days))"
    by (auto simp: aggregatePresences_Inr)
  from days have "length (sort (map fst (fold (groupByDate UserPresence.date) ps []))) = length days"
    unfolding map_result_all2 by (rule list_all2_lengthD)
  with date_count [of UserPresence.date ps]
  show "length (PresenceRangeSummary.dailySummaries s) = card (UserPresence.date ` set ps)"
    by (simp add: s(1))
  show "0 \<le> TimeFormat.hours (PresenceRangeSummary.grandTotal s)"
    using nn by (simp add: s(2) roundHours_nonneg)
qed

lemma presenceStatistics_of_summary:
  assumes "aggregatePresences ps sd ed = Inr s"
  shows "presenceStatistics s =
       (if ps = [] then Inr None
        else Inr (Some (card (UserPresence.date ` set ps),
               Some (roundHours (TimeFormat.hours (PresenceRangeSummary.grandTotal s) /
                                 real (card (UserPresence.date ` set ps))),
                     toClockString
                       (roundHours (TimeFormat.hours (PresenceRangeSummary.grandTotal s) /
                                    real (card (UserPresence.date ` set ps))))))))"
proof -
  note facts = presence_summary_facts [OF assms]
  show ?thesis
  proof (cases "ps = []")
    case True
    with facts(1) show ?thesis by (simp add: presenceStatistics_def)
  next
    case False
    then have pos: "0 < card (UserPresence.date ` set ps)"
      by (simp add: card_gt_0_iff)
    have "0 \<le> TimeFormat.hours (PresenceRangeSummary.grandTotal s) /
        real (card (UserPresence.date ` set ps))"
      using facts(2) by simp
    then have "0 \<le> roundHours (TimeFormat.hours (PresenceRangeSummary.grandTotal s) /
        real (card (UserPresence.date ` set ps)))"
      by (rule roundHours_nonneg)
    then show ?thesis
      using False pos
      by (simp add: presenceStatistics_def facts(1) js_divide_def Let_def createTimeFormat_nonneg)
  qed
qed

lemma aggregatePresences_total:
  assumes "\<forall>q\<in>set ps. completed q \<longrightarrow> validPresence q"
  shows "\<exists>r. aggregatePresences ps sd ed = Inr r"
proof -
  let ?F = "\<lambda>day. createDailyPresenceSummary day (filter (\<lambda>p. UserPresence.date p = day) ps)"
  let ?ds = "sort (map fst (fold (groupByDate UserPresence.date) ps []))"
  have each: "?F day = Inr \<lparr>DailyPresenceSummary.date = day,
          totalHours = roundHours (sumHours (map presenceHours
            (filter completed (filter (\<lambda>p. UserPresence.date p = day) ps)))),
          totalHoursFormatted = toClockString (sumHours (map presenceHours
            (filter completed (filter (\<lambda>p. UserPresence.date p = day) ps))))\<rparr>" for day
    using assms by (intro createDailyPresenceSummary_valid) simp
  have "\<exists>days. map_result ?F ?ds = Inr days"
    by (rule map_result_total) (simp add: each)
  then obtain days where days: "map_result ?F ?ds = Inr days" ..
  then have "list_all2 (\<lambda>day d. ?F day = Inr d) ?ds days" by (simp add: map_result_all2)
  then have "\<forall>d\<in>set days. 0 \<le> totalHours d"
  proof (induction rule: list_all2_induct)
    case Nil
    then show ?case by simp
  next
    case (Cons day xs d ys)
    have "0 \<le> sumHours (map presenceHours
            (filter completed (filter (\<lambda>p. UserPresence.date p = day) ps)))"
      using assms by (intro sumHours_nonneg) (auto simp: validPresence_hours(2))
    moreover have "Inr d = ?F day" using Cons.hyps(1) by simp
    then have "totalHours d = roundHours (sumHours (map presenceHours
            (filter completed (filter (\<lambda>p. UserPresence.date p = day) ps))))"
      unfolding each by simp
    ultimately have "0 \<le> totalHours d"
      by (simp add: roundHours_nonneg)
    with Cons.IH show ?case by simp
  qed
  then have "0 \<le> sumHours (map totalHours days)"
    by (intro sumHours_nonneg) auto
  with days show ?thesis unfolding aggregatePresences_Inr by blast
qed

lemma scenarioB_eval:
  "aggregatePresences scenarioB ''2024-01-15'' ''2024-01-15'' = Inr scenarioB_summary"
  by (simp add: scenarioB_def scenarioB_summary_def presence_eval)

subsection \<open>Claim C9\<close>

text \<open>
  C9. For two clock times written "HH:MM" (hours and minutes in decimal, zero-padded to two
  digits), \<open>calculateHoursFromTimes\<close> returns (to - from) / 60 when the end is not before
  the start, and (to - from + 24 * 60) / 60 otherwise, both counted in minutes since
  midnight. From "09:00" to "17:30" that is 8.5 hours, and the daily presence summary of
  that single record reports 8.5 hours, "8:30".
\<close>

theorem elapsed_hours_between_clock_times:
  "calculateHoursFromTimes (clockTime h1 m1) (clockTime h2 m2) =
     Some (if real h2 * 60 + real m2 \<ge> real h1 * 60 + real m1
           then ((real h2 * 60 + real m2) - (real h1 * 60 + real m1)) / 60
           else ((real h2 * 60 + real m2) - (real h1 * 60 + real m1) + 24 * 60) / 60)
   \<and> clockTime 9 0 = ''09:00'' \<and> clockTime 17 30 = ''17:30''
   \<and> calculateHoursFromTimes ''09:00'' ''17:30'' = Some 8.5
   \<and> createDailyPresenceSummary ''2024-01-15'' scenarioB =
       Inr \<lparr>DailyPresenceSummary.date = ''2024-01-15'', totalHours = 8.5,
            totalHoursFormatted = ''8:30''\<rparr>"
proof -
  have "calculateHoursFromTimes ''09:00'' ''17:30'' = Some 8.5"
    using calculateHoursFromTimes_clock [of 9 0 17 30] by (simp add: clockTime_examples)
  then show ?thesis
    by (simp only: calculateHoursFromTimes_clock clockTime_examples scenarioB_day simp_thms)
qed

theorem elapsed_hours_between_clock_times_witness:
  "calculateHoursFromTimes (clockTime 22 0) (clockTime 1 30) = Some 3.5"
  using elapsed_hours_between_clock_times [of 22 0 1 30] by simp

subsection \<open>Claim C8\<close>

text \<open>
  C8. A presence record whose \<open>to\<close> time is unset is excluded from the daily sum: the
  daily summary of a list of records is the same with and without such a record, wherever
  it stands in the list; a date with only open records has a summary of 0 hours, "0:00",
  and is not an error. When every record that has both times carries valid clock times,
  the summary is returned and its hours are the rounded sum of the elapsed hours of
  exactly the records that have both a \<open>from\<close> and a \<open>to\<close> time.
\<close>

theorem open_presences_are_excluded:
  "(to' p = None \<longrightarrow>
      createDailyPresenceSummary day (xs @ p # ys) = createDailyPresenceSummary day (xs @ ys))
   \<and> ((\<forall>q\<in>set ps. to' q = None) \<longrightarrow>
        createDailyPresenceSummary day ps =
          Inr \<lparr>DailyPresenceSummary.date = day, totalHours = 0, totalHoursFormatted = ''0:00''\<rparr>)
   \<and> ((\<forall>q\<in>set ps. completed q \<longrightarrow> validPresence q) \<longrightarrow>
        createDailyPresenceSummary day ps =
          Inr \<lparr>DailyPresenceSummary.date = day,
               totalHours = roundHours (sumHours (map presenceHours (filter completed ps))),
               totalHoursFormatted =
                 toClockString (sumHours (map presenceHours (filter completed ps)))\<rparr>)"
  using createDailyPresenceSummary_skip_open [of p day xs ys]
    createDailyPresenceSummary_all_open [of ps day]
    createDailyPresenceSummary_valid [of ps day]
  by blast

theorem open_presences_are_excluded_witness:
  "to' openRecord = None
   \<and> createDailyPresenceSummary ''2024-01-15'' (scenarioB @ openRecord # []) =
       Inr \<lparr>DailyPresenceSummary.date = ''2024-01-15'', totalHours = 8.5,
            totalHoursFormatted = ''8:30''\<rparr>
   \<and> createDailyPresenceSummary ''2024-01-15'' [openRecord] =
       Inr \<lparr>DailyPresenceSummary.date = ''2024-01-15'', totalHours = 0,
            totalHoursFormatted = ''0:00''\<rparr>"
proof -
  have o: "to' openRecord = None" by (simp add: openRecord_def)
  from open_presences_are_excluded [of openRecord "''2024-01-15''" scenarioB "[]" "[openRecord]"] o
  have "createDailyPresenceSummary ''2024-01-15'' (scenarioB @ openRecord # []) =
      createDailyPresenceSummary ''2024-01-15'' (scenarioB @ [])"
    and "createDailyPresenceSummary ''2024-01-15'' [openRecord] =
       Inr \<lparr>DailyPresenceSummary.date = ''2024-01-15'', totalHours = 0,
            totalHoursFormatted = ''0:00''\<rparr>"
    by simp_all
  with o scenarioB_day show ?thesis by simp
qed

subsection \<open>Claim C7\<close>

text \<open>
  C7 as stated fails: the working days are the number of daily summaries, and a date gets
  a daily summary as soon as it has any presence record. A single open record (no \<open>to\<close>
  time) gives one working day with an average of 0 hours, while no date has a qualifying
  record.
\<close>

theorem working_days_count_open_only_dates:
  "aggregatePresences openPresence ''2024-01-15'' ''2024-01-15'' = Inr openPresence_summary
   \<and> presenceStatistics openPresence_summary = Inr (Some (1, Some (0, ''0:00'')))
   \<and> length (qualifyingDates openPresence) = 0"
  by (simp add: openPresence_eval)

text \<open>
  C7 (amended). For every presence summary that \<open>aggregatePresences\<close> returns (it returns
  one whenever the records that have both times carry valid clock times): the working days
  are the number of distinct dates that have at least one presence record, open or not;
  the average per day is \<open>roundHours\<close> of the grand total's hours divided by the working
  days; when there is no record the statistics are omitted; computing the statistics never
  throws and never divides by zero.
\<close>

theorem presence_statistics_guarded:
  "(aggregatePresences ps sd ed = Inr s \<longrightarrow>
      presenceStatistics s =
        (if ps = [] then Inr None
         else Inr (Some (card (UserPresence.date ` set ps),
                Some (roundHours (TimeFormat.hours (PresenceRangeSummary.grandTotal s) /
                                  real (card (UserPresence.date ` set ps))),
                      toClockString
                        (roundHours (TimeFormat.hours (PresenceRangeSummary.grandTotal s) /
                                     real (card (UserPresence.date ` set ps)))))))))
   \<and> ((\<forall>q\<in>set ps. completed q \<longrightarrow> validPresence q) \<longrightarrow>
        (\<exists>r. aggregatePresences ps sd ed = Inr r))"
  using presenceStatistics_of_summary [of ps sd ed s] aggregatePresences_total [of ps sd ed]
  by blast

theorem presence_statistics_guarded_witness:
  "aggregatePresences scenarioB ''2024-01-15'' ''2024-01-15'' = Inr scenarioB_summary
   \<and> scenarioB \<noteq> []
   \<and> presenceStatistics scenarioB_summary = Inr (Some (1, Some (8.5, ''8:30'')))"
proof -
  have e: "aggregatePresences scenarioB ''2024-01-15'' ''2024-01-15'' = Inr scenarioB_summary"
    by (rule scenarioB_eval)
  have c: "card (UserPresence.date ` set scenarioB) = 1" by (simp add: scenarioB_def)
  have r: "roundHours (17 / 2) = 17 / 2" by (simp add: roundHours_def Math_round_def)
  have t: "toClockString (17 / 2) = ''8:30''"
    by (simp add: toClockString_def round_def toString_int_def padStart_def show_nat.simps
        digit_char_def)
  have n: "scenarioB \<noteq> []" by (simp add: scenarioB_def)
  from presence_statistics_guarded
    [of scenarioB "''2024-01-15''" "''2024-01-15''" scenarioB_summary] e n
  have "presenceStatistics scenarioB_summary = Inr (Some (1, Some (8.5, ''8:30'')))"
    by (simp add: c scenarioB_summary_def r t)
  with e n show ?thesis by simp
qed

section \<open>Properties of the holiday request\<close>

lemma startsWith_subset: "startsWith s sub \<Longrightarrow> set sub \<subseteq> set s"
  by (induction s sub rule: startsWith.induct) auto

lemma includes_subset: "includes' s sub \<Longrightarrow> set sub \<subseteq> set s"
proof (induction s)
  case Nil
  then show ?case by simp
next
  case (Cons a s)
  from Cons.prems have "startsWith (a # s) sub \<or> includes' s sub" by simp
  then show ?case
  proof
    assume "startsWith (a # s) sub"
    then show ?thesis by (rule startsWith_subset)
  next
    assume "includes' s sub"
    then have "set sub \<subseteq> set s" by (rule Cons.IH)
    then show ?thesis by auto
  qed
qed

lemma not_digit_colon: "\<not> isDigit (CHR '':'')"
  by (simp add: isDigit_def)

lemma show_nat_digits_set: "\<forall>c\<in>set (show_nat n). isDigit c"
  using show_nat_digits [of n] by (simp add: list_all_iff)

lemma takeWhile_status: "takeWhile isDigit (show_nat n @ CHR '':'' # rest) = show_nat n"
  using show_nat_digits_set [of n] by (simp add: takeWhile_append2 not_digit_colon)

lemma dropWhile_status: "dropWhile isDigit (show_nat n @ CHR '':'' # rest) = CHR '':'' # rest"
  using show_nat_digits_set [of n] by (simp add: dropWhile_append2 not_digit_colon)

lemma matchHttpStatus_status_line:
  "matchHttpStatus (''HTTP '' @ show_nat n @ '': '' @ txt) = Some (show_nat n)"
  by (simp add: takeWhile_status dropWhile_status show_nat_nonempty Let_def)

lemma includes_HTTP: "includes' (''HTTP '' @ rest) ''HTTP''"
  by simp

lemma handle_status_line:
  "handleMocoApiError \<lparr>isTypeError = False, message = ''HTTP '' @ show_nat n @ '': '' @ txt\<rparr> =
     createHttpErrorMessage n"
proof -
  define msg where "msg = ''HTTP '' @ show_nat n @ '': '' @ txt"
  have inc: "includes' msg ''HTTP''" unfolding msg_def by (rule includes_HTTP)
  have m: "matchHttpStatus msg = Some (show_nat n)"
    unfolding msg_def by (rule matchHttpStatus_status_line)
  have ne: "msg \<noteq> []" by (simp add: msg_def)
  have "handleMocoApiError \<lparr>isTypeError = False, message = msg\<rparr> = createHttpErrorMessage n"
    by (simp add: handleMocoApiError_def inc m ne decimal_value_show_nat)
  then show ?thesis by (simp only: msg_def)
qed

lemma makeRequest_NotOk:
  "makeRequest (NotOk n txt) = Inl (Error (createHttpErrorMessage n))"
  unfolding makeRequest_def by (simp only: fetchOutcome.case handle_status_line)

lemma fixed_messages_not_found:
  "\<not> includes' ''Invalid parameters. Please check your inputs.'' ''Resource not found''"
  "\<not> includes' ''API authentication failed. Please check MOCO_API_KEY.'' ''Resource not found''"
  "\<not> includes' ''Access denied. Please check your API permissions.'' ''Resource not found''"
  "\<not> includes' ''Invalid data. Please check date formats and value ranges.'' ''Resource not found''"
  "\<not> includes' ''API limit reached. Please try again in a few seconds.'' ''Resource not found''"
  "\<not> includes' ''MoCo server error. Please try again later.'' ''Resource not found''"
  "\<not> includes' ''Network error accessing MoCo API. Please check your internet connection.''
       ''Resource not found''"
  "includes' ''Resource not found. Please check the provided IDs.'' ''Resource not found''"
  by simp_all

lemma default_message_not_found:
  "\<not> includes' (''HTTP error '' @ show_nat n @ ''. Please contact support.'') ''Resource not found''"
proof -
  have "\<not> isDigit (CHR ''R'')" by (simp add: isDigit_def)
  then have "CHR ''R'' \<notin> set (show_nat n)" using show_nat_digits_set [of n] by blast
  then have "CHR ''R'' \<notin> set (''HTTP error '' @ show_nat n @ ''. Please contact support.'')"
    by simp
  moreover have "CHR ''R'' \<in> set ''Resource not found''" by simp
  ultimately show ?thesis using includes_subset by blast
qed

lemma not_found_message_iff:
  "includes' (createHttpErrorMessage n) ''Resource not found'' \<longleftrightarrow> n = 404"
  unfolding createHttpErrorMessage_def
  using default_message_not_found [of n]
  by (simp del: includes'.simps add: fixed_messages_not_found)

subsection \<open>Claim C10\<close>

text \<open>
  C10. When the holiday request is answered with HTTP status 404 (not found),
  \<open>getUserHolidays\<close> returns the empty list. For every other HTTP status the error that
  \<open>makeRequest\<close> raised (its message is the one \<open>createHttpErrorMessage\<close> gives for the
  status) is raised again unchanged, and so is the network error of a rejected
  \<open>fetch\<close>. In general an error of \<open>makeRequest\<close> is swallowed exactly when its message
  contains "Resource not found", and is re-raised unchanged otherwise; a successful
  response is returned as it is.
\<close>

theorem getUserHolidays_not_found_tolerance:
  "getUserHolidays (NotOk 404 statusText :: 'a list fetchOutcome) = Inr []
   \<and> (status \<noteq> 404 \<longrightarrow>
        getUserHolidays (NotOk status statusText :: 'a list fetchOutcome) =
          Inl (Error (createHttpErrorMessage status)))
   \<and> makeRequest (NotOk status statusText :: 'a list fetchOutcome) =
        Inl (Error (createHttpErrorMessage status))
   \<and> (isTypeError err \<and>
        (includes' (message err) ''fetch'' \<or> includes' (message err) ''Network error'') \<longrightarrow>
        getUserHolidays (Rejected err :: 'a list fetchOutcome) =
          Inl (Error ''Network error accessing MoCo API. Please check your internet connection.''))
   \<and> (makeRequest (outcome :: 'a list fetchOutcome) = Inl (Error msg) \<longrightarrow>
        getUserHolidays outcome =
          (if includes' msg ''Resource not found'' then Inr [] else Inl (Error msg)))
   \<and> getUserHolidays (Parsed holidays :: 'a list fetchOutcome) = Inr holidays"
proof (intro conjI impI)
  show "getUserHolidays (NotOk 404 statusText :: 'a list fetchOutcome) = Inr []"
    using not_found_message_iff [of 404]
    by (simp add: getUserHolidays_def makeRequest_NotOk del: includes'.simps)
  show "makeRequest (NotOk status statusText :: 'a list fetchOutcome) =
        Inl (Error (createHttpErrorMessage status))"
    by (rule makeRequest_NotOk)
  show "getUserHolidays (Parsed holidays :: 'a list fetchOutcome) = Inr holidays"
    by (simp add: getUserHolidays_def makeRequest_def)
next
  assume "status \<noteq> 404"
  then show "getUserHolidays (NotOk status statusText :: 'a list fetchOutcome) =
          Inl (Error (createHttpErrorMessage status))"
    using not_found_message_iff [of status]
    by (simp add: getUserHolidays_def makeRequest_NotOk del: includes'.simps)
next
  assume "isTypeError err \<and>
        (includes' (message err) ''fetch'' \<or> includes' (message err) ''Network error'')"
  then have "handleMocoApiError err =
      ''Network error accessing MoCo API. Please check your internet connection.''"
    by (simp add: handleMocoApiError_def del: includes'.simps)
  then show "getUserHolidays (Rejected err :: 'a list fetchOutcome) =
          Inl (Error ''Network error accessing MoCo API. Please check your internet connection.'')"
    using fixed_messages_not_found(7)
    by (simp add: getUserHolidays_def makeRequest_def del: includes'.simps)
next
  assume "makeRequest outcome = Inl (Error msg)"
  then show "getUserHolidays outcome =
          (if includes' msg ''Resource not found'' then Inr [] else Inl (Error msg))"
    by (simp add: getUserHolidays_def del: includes'.simps)
qed

theorem getUserHolidays_not_found_tolerance_witness:
  "(500::nat) \<noteq> 404
   \<and> getUserHolidays (NotOk 500 ''Internal Server Error'' :: nat list fetchOutcome) =
       Inl (Error ''MoCo server error. Please try again later.'')
   \<and> getUserHolidays (NotOk 404 ''Not Found'' :: nat list fetchOutcome) = Inr []"
  using getUserHolidays_not_found_tolerance
      [where ?'a = nat and status = 500 and statusText = "''Internal Server Error''"]
    getUserHolidays_not_found_tolerance
      [where ?'a = nat and statusText = "''Not Found''"]
  by (simp add: createHttpErrorMessage_def del: includes'.simps)

end
